theory Spec2Isabelle
  imports Complex_Main
begin

section \<open>Numbers, dates and strings of the JavaScript source\<close>

text \<open>
  A \<open>Date\<close> is its number of milliseconds since the epoch, an \<open>int\<close>; the difference of
  two dates is a number of milliseconds. A \<open>Number\<close> that is only counted, compared and
  added is an \<open>int\<close> or a \<open>rat\<close>. The one place where the source divides by a value that
  can be zero is the percentage of \<open>calculateScore\<close>, so the result of a division is a
  \<open>jsnum\<close>: a finite number, \<open>NaN\<close> or one of the two infinities, as in JavaScript.
  Finite numbers are exact rationals: the binary rounding of doubles is not modelled.
\<close>

datatype jsnum = Number rat | NaN | Infinity | NegInfinity

text \<open>\<open>a / b\<close> on two finite numbers.\<close>

definition js_div :: "rat \<Rightarrow> rat \<Rightarrow> jsnum" where
  "js_div a b =
     (if b \<noteq> 0 then Number (a / b)
      else if 0 < a then Infinity
      else if a < 0 then NegInfinity
      else NaN)"

text \<open>\<open>x * c\<close> for a finite positive constant \<open>c\<close> (the source multiplies by 100).\<close>

fun js_times_pos :: "jsnum \<Rightarrow> rat \<Rightarrow> jsnum" where
  "js_times_pos (Number x) c = Number (x * c)"
| "js_times_pos NaN c = NaN"
| "js_times_pos Infinity c = Infinity"
| "js_times_pos NegInfinity c = NegInfinity"

text \<open>\<open>Math.round\<close>: the nearest integer, a half rounded up; \<open>NaN\<close> and the infinities stay.\<close>

fun Math_round :: "jsnum \<Rightarrow> jsnum" where
  "Math_round (Number x) = Number (of_int \<lfloor>x + 1 / 2\<rfloor>)"
| "Math_round NaN = NaN"
| "Math_round Infinity = Infinity"
| "Math_round NegInfinity = NegInfinity"

text \<open>\<open>x >= y\<close> and \<open>x > y\<close>: every comparison with \<open>NaN\<close> is false.\<close>

fun js_ge :: "jsnum \<Rightarrow> jsnum \<Rightarrow> bool" where
  "js_ge NaN y = False"
| "js_ge x NaN = False"
| "js_ge Infinity y = True"
| "js_ge x NegInfinity = True"
| "js_ge NegInfinity y = False"
| "js_ge x Infinity = False"
| "js_ge (Number x) (Number y) = (y \<le> x)"

fun js_gt :: "jsnum \<Rightarrow> jsnum \<Rightarrow> bool" where
  "js_gt NaN y = False"
| "js_gt x NaN = False"
| "js_gt NegInfinity y = False"
| "js_gt x Infinity = False"
| "js_gt Infinity y = True"
| "js_gt x NegInfinity = True"
| "js_gt (Number x) (Number y) = (y < x)"

text \<open>The decimal digits of a natural number, and of an integer, as a template literal
  prints them.\<close>

fun show_nat :: "nat \<Rightarrow> string" where
  "show_nat n =
     (if n < 10 then [char_of (48 + n)]
      else show_nat (n div 10) @ [char_of (48 + n mod 10)])"

definition show_int :: "int \<Rightarrow> string" where
  "show_int i = (if i < 0 then CHR ''-'' # show_nat (nat (- i)) else show_nat (nat i))"

text \<open>\<open>parseInt(process.env.X) || d\<close>: the variable read as an integer (\<open>None\<close> when it is
  unset or not a number, which gives \<open>NaN\<close>), replaced by the default when falsy.\<close>

definition env_or :: "int option \<Rightarrow> int \<Rightarrow> int" where
  "env_or e d = (case e of None \<Rightarrow> d | Some n \<Rightarrow> if n = 0 then d else n)"

section \<open>The candidate's attempt record and the eligibility check\<close>

record testInfo =
  totalAttempts :: int
  lastAttemptDate :: "int option"
  bestScore :: jsnum
  hasQualified :: bool
  qualificationDate :: "int option"
  blockedUntil :: "int option"
  blockedReason :: "string option"

record eligibility =
  canAttempt :: bool
  reason :: "string option"

text \<open>\<open>userSchema.methods.canAttemptTest\<close>, with the clock and \<open>MAX_ATTEMPTS\<close> as arguments.\<close>

definition canAttemptTest :: "int option \<Rightarrow> int \<Rightarrow> testInfo \<Rightarrow> eligibility" where
  "canAttemptTest env_MAX_ATTEMPTS now ti =
     (let maxAttempts = env_or env_MAX_ATTEMPTS 5 in
      if (case blockedUntil ti of None \<Rightarrow> False | Some b \<Rightarrow> now < b) then
        \<lparr>canAttempt = False, reason = Some ''Account is temporarily blocked''\<rparr>
      else if hasQualified ti then
        \<lparr>canAttempt = False, reason = Some ''Already qualified''\<rparr>
      else if totalAttempts ti \<ge> maxAttempts then
        \<lparr>canAttempt = False, reason = Some ''Maximum attempts reached''\<rparr>
      else
        (case lastAttemptDate ti of
           None \<Rightarrow> \<lparr>canAttempt = True, reason = None\<rparr>
         | Some l \<Rightarrow>
             (let timeDiff = now - l;
                  hoursDiff = (of_int timeDiff :: rat) / (1000 * 60 * 60) in
              if hoursDiff < 24 then
                \<lparr>canAttempt = False,
                 reason = Some (''Please wait '' @ show_int \<lceil>24 - hoursDiff\<rceil>
                                @ '' hours before next attempt'')\<rparr>
              else \<lparr>canAttempt = True, reason = None\<rparr>)))"

text \<open>The four rejection rules of the check, each as a predicate on the record.\<close>

definition is_blocked :: "int \<Rightarrow> testInfo \<Rightarrow> bool" where
  "is_blocked now ti = (case blockedUntil ti of None \<Rightarrow> False | Some b \<Rightarrow> now < b)"

definition in_cooldown :: "int \<Rightarrow> testInfo \<Rightarrow> bool" where
  "in_cooldown now ti =
     (case lastAttemptDate ti of None \<Rightarrow> False | Some l \<Rightarrow> now - l < 24 * 3600000)"

section \<open>The test session\<close>

datatype status = Scheduled | InProgress | Completed | Submitted | Evaluated | Cancelled | Expired

record opt =
  opt_text :: string
  opt_isCorrect :: bool

record user_response =
  selectedOption :: string
  selectedAnswer :: string
  timeSpent :: int
  answeredAt :: "int option"
  isAnswered :: bool
  flaggedForReview :: bool

text \<open>One entry of \<open>questions\<close>. \<open>isCorrect\<close> is a Boolean that starts as \<open>null\<close>
  (\<open>None\<close>); it is truthy exactly when it is \<open>Some True\<close>.\<close>

record slot =
  questionNumber :: int
  questionType :: string
  category :: string
  difficulty :: string
  points :: rat
  negativePoints :: rat
  options :: "opt list"
  correctAnswer :: "string option"
  userResponse :: user_response
  isCorrect :: "bool option"
  pointsEarned :: rat

record group_score =
  group_name :: string
  group_totalQuestions :: nat
  group_correctAnswers :: nat
  group_percentage :: jsnum
  group_points :: rat

record score =
  score_totalQuestions :: nat
  attemptedQuestions :: nat
  correctAnswers :: nat
  wrongAnswers :: nat
  unansweredQuestions :: nat
  totalPoints :: rat
  score_pointsEarned :: rat
  score_negativePoints :: rat
  netScore :: rat
  percentage :: jsnum
  grade :: string
  categoryWiseScore :: "group_score list"
  difficultyWiseScore :: "group_score list"

record testConfig =
  totalQuestions :: int
  durationMinutes :: int
  passingPercentage :: int
  negativeMarking :: bool

record analytics =
  avgTimePerQuestion :: int
  fastestQuestion :: "(int \<times> int) option"
  slowestQuestion :: "(int \<times> int) option"
  timeDistribution :: "(string \<times> nat) list"
  attemptPattern :: "(int \<times> string \<times> int) list"

text \<open>
  The proctoring block of a session. The schema declares \<open>suspiciousActivities\<close> as
  \<open>[{ type: String, timestamp: Date, description: String }]\<close>; the key \<open>type\<close> is the one by
  which a schema names the type of a path, so the path is an array of String. A value
  pushed on the array is cast to String: a string is kept, and a plain object, such as the
  report that the violation endpoint pushes, is refused with a \<open>CastError\<close>.
\<close>

record proctoring =
  fullScreenViolations :: int
  tabSwitchViolations :: int
  suspiciousActivities :: "string list"

datatype pushed = Text string | Report string int string

fun cast_String :: "pushed \<Rightarrow> string + string" where
  "cast_String (Text s) = Inr s"
| "cast_String (Report violationType timestamp description) = Inl ''CastError''"

definition push_activity :: "pushed \<Rightarrow> proctoring \<Rightarrow> string + proctoring" where
  "push_activity v p =
     (case cast_String v of
        Inl e \<Rightarrow> Inl e
      | Inr s \<Rightarrow> Inr (p\<lparr>suspiciousActivities := suspiciousActivities p @ [s]\<rparr>))"

text \<open>The session document, with the fields that the operations below read or write. (The
  user it belongs to, the device information, and the feedback, review and certificate
  fields are left out.) \<open>session_testId\<close> is the path \<open>testId\<close>, required and with no
  default: \<open>None\<close> is a document that has none.\<close>

record test =
  session_testId :: "string option"
  testConfig :: testConfig
  questions :: "slot list"
  startTime :: int
  endTime :: "int option"
  submittedAt :: "int option"
  actualDurationMinutes :: int
  timeRemaining :: rat
  status :: status
  score :: score
  isPassed :: bool
  analytics :: analytics
  proctoring :: proctoring
  attemptNumber :: int

definition truthy :: "bool option \<Rightarrow> bool" where
  "truthy b = (b = Some True)"

section \<open>The scoring engine\<close>

text \<open>The object \<open>score\<close> as \<open>calculateScore\<close> first builds it.\<close>

definition score_init :: "slot list \<Rightarrow> score" where
  "score_init qs =
     \<lparr>score_totalQuestions = length qs, attemptedQuestions = 0, correctAnswers = 0,
      wrongAnswers = 0, unansweredQuestions = 0, totalPoints = 0, score_pointsEarned = 0,
      score_negativePoints = 0, netScore = 0, percentage = Number 0, grade = ''F'',
      categoryWiseScore = [], difficultyWiseScore = []\<rparr>"

text \<open>The body of \<open>this.questions.forEach\<close>: one question added to the running score.\<close>

definition score_question :: "bool \<Rightarrow> slot \<Rightarrow> score \<Rightarrow> score" where
  "score_question negMarking q s0 =
     (let s = s0\<lparr>totalPoints := totalPoints s0 + points q\<rparr> in
      if isAnswered (userResponse q) then
        (let s1 = s\<lparr>attemptedQuestions := attemptedQuestions s + 1\<rparr> in
         if truthy (isCorrect q) then
           s1\<lparr>correctAnswers := correctAnswers s1 + 1,
              score_pointsEarned := score_pointsEarned s1 + points q\<rparr>
         else
           (let s2 = s1\<lparr>wrongAnswers := wrongAnswers s1 + 1\<rparr> in
            if negMarking then
              s2\<lparr>score_negativePoints := score_negativePoints s2 + negativePoints q\<rparr>
            else s2))
      else s\<lparr>unansweredQuestions := unansweredQuestions s + 1\<rparr>)"

text \<open>The \<open>if\<close>/\<open>else if\<close> chain of the grade.\<close>

definition grade_of :: "jsnum \<Rightarrow> string" where
  "grade_of p =
     (if js_ge p (Number 90) then ''A+''
      else if js_ge p (Number 80) then ''A''
      else if js_ge p (Number 70) then ''B+''
      else if js_ge p (Number 60) then ''B''
      else if js_ge p (Number 50) then ''C+''
      else if js_ge p (Number 40) then ''C''
      else if js_ge p (Number 30) then ''D''
      else ''F'')"

text \<open>\<open>[...new Set(xs)]\<close>: the distinct values in the order of their first occurrence.\<close>

definition uniq :: "'a list \<Rightarrow> 'a list" where
  "uniq xs = fold (\<lambda>x acc. if x \<in> set acc then acc else acc @ [x]) xs []"

text \<open>The entry of one category or difficulty: \<open>key\<close> reads the grouping field.\<close>

definition group_entry :: "(slot \<Rightarrow> string) \<Rightarrow> slot list \<Rightarrow> string \<Rightarrow> group_score" where
  "group_entry key qs g =
     (let groupQuestions = filter (\<lambda>q. key q = g) qs;
          groupCorrect = length (filter (\<lambda>q. truthy (isCorrect q)) groupQuestions);
          groupPoints = fold (\<lambda>q sum. sum + (if truthy (isCorrect q) then points q
                                 else if isAnswered (userResponse q) then - negativePoints q
                                 else 0)) groupQuestions 0 in
      \<lparr>group_name = g, group_totalQuestions = length groupQuestions,
       group_correctAnswers = groupCorrect,
       group_percentage =
         Math_round (js_times_pos (js_div (of_nat groupCorrect) (of_nat (length groupQuestions))) 100),
       group_points = groupPoints\<rparr>)"

text \<open>The object that \<open>calculateScore\<close> returns.\<close>

definition score_of :: "testConfig \<Rightarrow> slot list \<Rightarrow> score" where
  "score_of cfg qs =
     (let s = fold (score_question (negativeMarking cfg)) qs (score_init qs);
          net = score_pointsEarned s - score_negativePoints s;
          pct = Math_round (js_times_pos (js_div net (totalPoints s)) 100) in
      s\<lparr>netScore := net, percentage := pct, grade := grade_of pct,
        categoryWiseScore := map (group_entry category qs) (uniq (map category qs)),
        difficultyWiseScore := map (group_entry difficulty qs) (uniq (map difficulty qs))\<rparr>)"

text \<open>\<open>testSchema.methods.calculateScore\<close>: the score and the pass flag are stored on the
  session.\<close>

definition calculateScore :: "test \<Rightarrow> test" where
  "calculateScore t =
     (let sc = score_of (testConfig t) (questions t) in
      t\<lparr>score := sc,
        isPassed := js_ge (percentage sc) (Number (of_int (passingPercentage (testConfig t))))\<rparr>)"

section \<open>The methods of the session\<close>

text \<open>
  The \<open>pre('save')\<close> hook: the duration is computed while the status is \<open>Completed\<close>. The
  hook also generates a \<open>testId\<close> for a document that has none, but a document reaches the
  hook only after its validation, which requires a \<open>testId\<close>: that branch is never taken.
  (The \<open>validUntil\<close> expiry flag is a field no operation below reads; it is left out.)
\<close>

definition save :: "test \<Rightarrow> test" where
  "save t =
     (case endTime t of
        Some e \<Rightarrow>
          if status t = Completed then
            t\<lparr>actualDurationMinutes := \<lfloor>(of_int (e - startTime t) :: rat) / (1000 * 60) + 1 / 2\<rfloor>\<rparr>
          else t
      | None \<Rightarrow> t)"


text \<open>\<open>testSchema.methods.startTest\<close>; a thrown \<open>Error\<close> is \<open>Inl\<close> of its message.\<close>

definition startTest :: "int \<Rightarrow> test \<Rightarrow> string + test" where
  "startTest now t =
     (if status t \<noteq> Scheduled then Inl ''Test cannot be started in current status''
      else Inr (save (t\<lparr>status := InProgress, startTime := now,
                        timeRemaining := of_int (durationMinutes (testConfig t) * 60)\<rparr>)))"

text \<open>\<open>toLowerCase\<close> and \<open>trim\<close> on the characters a \<open>string\<close> here can hold, the code
  units below 256: the capitals of ASCII and of Latin-1, and the white space of JavaScript
  in that range.\<close>

definition toLowerCase :: "string \<Rightarrow> string" where
  "toLowerCase = map (\<lambda>c. let n = (of_char c :: nat) in
                           if (65 \<le> n \<and> n \<le> 90) \<or> (192 \<le> n \<and> n \<le> 222 \<and> n \<noteq> 215)
                           then char_of (n + 32) else c)"

definition is_space :: "char \<Rightarrow> bool" where
  "is_space c = ((of_char c :: nat) \<in> {9, 10, 11, 12, 13, 32, 160})"

definition trim :: "string \<Rightarrow> string" where
  "trim s = rev (dropWhile is_space (rev (dropWhile is_space s)))"

text \<open>The first element that satisfies \<open>P\<close> is replaced: \<open>find\<close> followed by assignments
  to the object found.\<close>

fun update_first :: "('a \<Rightarrow> bool) \<Rightarrow> ('a \<Rightarrow> 'a) \<Rightarrow> 'a list \<Rightarrow> 'a list" where
  "update_first P f [] = []"
| "update_first P f (x # xs) = (if P x then f x # xs else x # update_first P f xs)"

text \<open>What \<open>submitAnswer\<close> writes on the question it found. A multiple-choice question
  with no option marked correct gets \<open>isCorrect = undefined\<close> (\<open>None\<close>); another question
  with no \<open>correctAnswer\<close> makes \<open>toLowerCase\<close> throw.\<close>

definition answer_slot :: "int \<Rightarrow> bool \<Rightarrow> string \<Rightarrow> int \<Rightarrow> slot \<Rightarrow> string + slot" where
  "answer_slot now negMarking answer spent q =
     (let ur = (userResponse q)\<lparr>selectedAnswer := answer, timeSpent := spent,
                                  answeredAt := Some now, isAnswered := True\<rparr>;
          graded =
            (if questionType q = ''Multiple Choice'' then
               Inr (case find opt_isCorrect (options q) of
                      None \<Rightarrow> None
                    | Some correctOption \<Rightarrow> Some (opt_text correctOption = answer),
                    ur\<lparr>selectedOption := answer\<rparr>)
             else
               (case correctAnswer q of
                  None \<Rightarrow> Inl ''TypeError''
                | Some ca \<Rightarrow> Inr (Some (trim (toLowerCase ca) = trim (toLowerCase answer)), ur)))
      in case graded of
           Inl e \<Rightarrow> Inl e
         | Inr (ic, ur') \<Rightarrow>
             Inr (q\<lparr>userResponse := ur', isCorrect := ic,
                    pointsEarned :=
                      (if truthy ic then points q
                       else if negMarking \<and> isAnswered ur' then - negativePoints q
                       else 0)\<rparr>))"

text \<open>\<open>testSchema.methods.submitAnswer\<close>.\<close>

definition submitAnswer :: "int \<Rightarrow> int \<Rightarrow> string \<Rightarrow> int \<Rightarrow> test \<Rightarrow> string + test" where
  "submitAnswer now qn answer spent t =
     (case find (\<lambda>q. questionNumber q = qn) (questions t) of
        None \<Rightarrow> Inl ''Question not found''
      | Some question \<Rightarrow>
          (case answer_slot now (negativeMarking (testConfig t)) answer spent question of
             Inl e \<Rightarrow> Inl e
           | Inr question' \<Rightarrow>
               Inr (save (t\<lparr>questions :=
                     update_first (\<lambda>q. questionNumber q = qn) (\<lambda>_. question') (questions t)\<rparr>))))"

text \<open>\<open>testSchema.methods.calculateAnalytics\<close>. \<open>sort_key\<close> is a stable insertion sort, as
  \<open>Array.prototype.sort\<close> is stable; the sorted array is a copy made by \<open>filter\<close>.\<close>

definition timeRanges :: "(string \<times> int \<times> int option) list" where
  "timeRanges = [(''0-30s'', 0, Some 30), (''30-60s'', 30, Some 60),
                 (''60-120s'', 60, Some 120), (''120s+'', 120, None)]"

definition in_range :: "int \<Rightarrow> (string \<times> int \<times> int option) \<Rightarrow> bool" where
  "in_range time r =
     (case r of (_, lo, hi) \<Rightarrow> time \<ge> lo \<and> (case hi of None \<Rightarrow> True | Some h \<Rightarrow> time < h))"

definition calculateAnalytics :: "test \<Rightarrow> test" where
  "calculateAnalytics t =
     (let answeredQuestions = filter (\<lambda>q. isAnswered (userResponse q)) (questions t) in
      if answeredQuestions = [] then
        t\<lparr>analytics := (analytics t)\<lparr>avgTimePerQuestion := 0\<rparr>\<rparr>
      else
        (let totalTime = fold (\<lambda>q sum. sum + timeSpent (userResponse q)) answeredQuestions 0;
             sortedByTime = sort_key (\<lambda>q. timeSpent (userResponse q)) answeredQuestions;
             times = map (\<lambda>q. timeSpent (userResponse q)) answeredQuestions in
         t\<lparr>analytics := (analytics t)
             \<lparr>avgTimePerQuestion :=
                \<lfloor>(of_int totalTime :: rat) / of_nat (length answeredQuestions) + 1 / 2\<rfloor>,
              fastestQuestion :=
                Some (questionNumber (hd sortedByTime), timeSpent (userResponse (hd sortedByTime))),
              slowestQuestion :=
                Some (questionNumber (last sortedByTime),
                      timeSpent (userResponse (last sortedByTime))),
              timeDistribution :=
                map (\<lambda>r. (fst r, length (filter (\<lambda>time. find (in_range time) timeRanges = Some r)
                                              times)))
                    timeRanges\<rparr>\<rparr>))"

text \<open>\<open>testSchema.methods.completeTest\<close>, at the time \<open>now\<close>.\<close>

definition completeTest :: "int \<Rightarrow> test \<Rightarrow> string + test" where
  "completeTest now t =
     (if status t \<noteq> InProgress then Inl ''Test is not in progress''
      else
        (let t1 = t\<lparr>endTime := Some now, submittedAt := Some now, status := Completed\<rparr>;
             t2 = calculateScore t1;
             t3 = calculateAnalytics t2;
             t4 = t3\<lparr>status := Evaluated\<rparr>
         in Inr (save t4)))"

section \<open>The question selector\<close>

text \<open>A document of the question collection, with the fields the selector and the session
  read.\<close>

record question =
  q_id :: nat
  q_status :: string
  q_isApproved :: bool
  q_questionType :: string
  q_category :: string
  q_difficulty :: string
  q_points :: rat
  q_negativePoints :: rat
  q_options :: "opt list option"
  q_correctAnswer :: "string option"

text \<open>
  The random choices of the database and of \<open>Math.random\<close> are an argument: a source
  \<open>rnd :: nat \<Rightarrow> nat\<close> gives the number drawn at each step, and every source is allowed.
  \<open>sample rnd n xs\<close> is the stage \<open>{ $sample: { size: n } }\<close> on the documents \<open>xs\<close>: it
  draws \<open>n\<close> documents without replacement, or all of them when there are fewer, each
  draw taking the document at the position \<open>rnd k mod m\<close> among the \<open>m\<close> documents
  that are left.
\<close>

fun sample :: "(nat \<Rightarrow> nat) \<Rightarrow> nat \<Rightarrow> 'a list \<Rightarrow> 'a list" where
  "sample rnd 0 xs = []"
| "sample rnd (Suc n) xs =
     (if xs = [] then []
      else (let i = rnd n mod length xs in xs ! i # sample rnd n (take i xs @ drop (Suc i) xs)))"

text \<open>The positions that \<open>sample rnd n\<close> picks on a list of length \<open>m\<close>, one for each draw,
  each in the list that is left.\<close>

fun choices :: "(nat \<Rightarrow> nat) \<Rightarrow> nat \<Rightarrow> nat \<Rightarrow> nat list" where
  "choices rnd 0 m = []"
| "choices rnd (Suc n) m = (if m = 0 then [] else rnd n mod m # choices rnd n (m - 1))"

text \<open>The database refuses a negative sample size: \<open>aggregate\<close> then throws.\<close>

definition aggregate_sample :: "(nat \<Rightarrow> nat) \<Rightarrow> int \<Rightarrow> 'a list \<Rightarrow> string + 'a list" where
  "aggregate_sample rnd n docs =
     (if n < 0 then Inl ''MongoServerError'' else Inr (sample rnd (nat n) docs))"

text \<open>\<open>xs.sort(() => Math.random() - 0.5)\<close>: some permutation of \<open>xs\<close>.\<close>

definition shuffle :: "(nat \<Rightarrow> nat) \<Rightarrow> 'a list \<Rightarrow> 'a list" where
  "shuffle rnd xs = sample rnd (length xs) xs"

text \<open>\<open>xs.slice(0, e)\<close>: a negative end counts from the end of the array.\<close>

definition slice0 :: "int \<Rightarrow> 'a list \<Rightarrow> 'a list" where
  "slice0 e xs = (if e < 0 then take (nat (int (length xs) + e)) xs else take (nat e) xs)"

text \<open>The first \<open>$match\<close> stage: active, approved, not excluded, and of one of the
  categories when categories are given.\<close>

definition eligible :: "string list \<Rightarrow> nat list \<Rightarrow> question \<Rightarrow> bool" where
  "eligible categories excludeIds q =
     (q_status q = ''Active'' \<and> q_isApproved q \<and> q_id q \<notin> set excludeIds \<and>
      (categories \<noteq> [] \<longrightarrow> q_category q \<in> set categories))"

text \<open>The loop over \<open>Object.entries(difficulty)\<close>, the distribution being the list
  of its entries: the \<open>k\<close>-th random operation uses the source \<open>rnd k\<close>; \<open>pool\<close> is the
  collection after the first \<open>$match\<close>, \<open>selected\<close> the array \<open>questions\<close>.\<close>

fun draw_buckets ::
  "(nat \<Rightarrow> nat \<Rightarrow> nat) \<Rightarrow> nat \<Rightarrow> int \<Rightarrow> (string \<times> int) list \<Rightarrow> question list \<Rightarrow> question list
     \<Rightarrow> string + question list" where
  "draw_buckets rnd k count [] pool selected = Inr selected"
| "draw_buckets rnd k count ((diff, pct) # rest) pool selected =
     (let questionsNeeded = \<lfloor>(of_int (count * pct) :: rat) / 100 + 1 / 2\<rfloor> in
      case aggregate_sample (rnd k) questionsNeeded (filter (\<lambda>q. q_difficulty q = diff) pool) of
        Inl e \<Rightarrow> Inl e
      | Inr difficultyQuestions \<Rightarrow>
          draw_buckets rnd (Suc k) count rest pool (selected @ difficultyQuestions))"

text \<open>The questions that the loop draws for the entry \<open>(diff, pct)\<close> at position \<open>j\<close>.\<close>

definition bucket_draw ::
  "(nat \<Rightarrow> nat \<Rightarrow> nat) \<Rightarrow> int \<Rightarrow> question list \<Rightarrow> nat \<times> string \<times> int \<Rightarrow> question list" where
  "bucket_draw rnd count pool e =
     (case e of (j, diff, pct) \<Rightarrow>
        sample (rnd j) (nat \<lfloor>(of_int (count * pct) :: rat) / 100 + 1 / 2\<rfloor>)
          (filter (\<lambda>q. q_difficulty q = diff) pool))"

text \<open>The array \<open>questions\<close> after the fallback: when the bucket draws \<open>drawn\<close> are fewer than
  \<open>count\<close>, the remainder is drawn from the questions of the pool whose id is not used.\<close>

definition fill_up ::
  "(nat \<Rightarrow> nat) \<Rightarrow> int \<Rightarrow> question list \<Rightarrow> question list \<Rightarrow> question list" where
  "fill_up rnd count pool drawn =
     (if int (length drawn) < count then
        drawn @ sample rnd (nat (count - int (length drawn)))
                  (filter (\<lambda>q. q_id q \<notin> set (map q_id drawn)) pool)
      else drawn)"

text \<open>\<open>questionSchema.statics.getRandomQuestions\<close> on the collection \<open>db\<close>.\<close>

definition getRandomQuestions ::
  "(nat \<Rightarrow> nat \<Rightarrow> nat) \<Rightarrow> int \<Rightarrow> (string \<times> int) list \<Rightarrow> string list \<Rightarrow> nat list \<Rightarrow> question list
     \<Rightarrow> string + question list" where
  "getRandomQuestions rnd count distribution categories excludeIds db =
     (let pool = filter (eligible categories excludeIds) db in
      case draw_buckets rnd 0 count distribution pool [] of
        Inl e \<Rightarrow> Inl e
      | Inr selected \<Rightarrow>
          (case (if int (length selected) < count then
                   (let remaining = count - int (length selected);
                        usedIds = map q_id selected in
                    case aggregate_sample (rnd (length distribution)) remaining
                           (filter (\<lambda>q. q_id q \<notin> set usedIds) pool) of
                      Inl e \<Rightarrow> Inl e
                    | Inr remainingQuestions \<Rightarrow> Inr (selected @ remainingQuestions))
                 else Inr selected) of
             Inl e \<Rightarrow> Inl e
           | Inr filled \<Rightarrow> Inr (slice0 count (shuffle (rnd (Suc (length distribution))) filled))))"

section \<open>The endpoints of the test routes\<close>

text \<open>
  Each handler is a function of the clock, the request and the documents it loads, and
  returns the response with the documents as saved. The authentication middleware in
  front of the handlers is outside the model: a request that it turns away does not reach
  a handler. The notifications sent after a submission are not modelled either.
\<close>

record response =
  http_status :: nat
  res_success :: bool
  res_text :: string
  res_testCompleted :: bool

definition respond :: "nat \<Rightarrow> bool \<Rightarrow> string \<Rightarrow> response" where
  "respond c ok txt = \<lparr>http_status = c, res_success = ok, res_text = txt, res_testCompleted = False\<rparr>"

record start_env =
  env_MAX_ATTEMPTS :: "int option"
  env_QUESTIONS_PER_TEST :: "int option"
  env_TEST_DURATION_MINUTES :: "int option"
  env_PASSING_PERCENTAGE :: "int option"

text \<open>The values a new document takes from the schema's defaults.\<close>

definition default_score :: score where
  "default_score =
     \<lparr>score_totalQuestions = 0, attemptedQuestions = 0, correctAnswers = 0, wrongAnswers = 0,
      unansweredQuestions = 0, totalPoints = 0, score_pointsEarned = 0, score_negativePoints = 0,
      netScore = 0, percentage = Number 0, grade = ''F'', categoryWiseScore = [],
      difficultyWiseScore = []\<rparr>"

definition default_analytics :: analytics where
  "default_analytics =
     \<lparr>avgTimePerQuestion = 0, fastestQuestion = None, slowestQuestion = None,
      timeDistribution = [], attemptPattern = []\<rparr>"



text \<open>The handlers below get \<open>found\<close>, the result of \<open>Test.findOne\<close> for the session id and
  the user of the request, and return the session as it is stored afterwards.\<close>

text \<open>\<open>POST /api/tests/begin/:testId\<close>.\<close>

definition begin_op :: "int \<Rightarrow> test option \<Rightarrow> response \<times> test option" where
  "begin_op now found =
     (case found of
        None \<Rightarrow> (respond 404 False ''Test not found'', None)
      | Some t \<Rightarrow>
          if status t \<noteq> Scheduled then
            (respond 400 False ''Test cannot be started in current state'', Some t)
          else
            (case startTest now t of
               Inl e \<Rightarrow> (respond 500 False ''Failed to begin test'', Some t)
             | Inr t' \<Rightarrow> (respond 200 True ''Test started successfully'', Some t')))"

text \<open>\<open>PUT /api/tests/answer/:testId\<close>, with the body's \<open>questionNumber\<close>, \<open>answer\<close> and
  \<open>timeSpent\<close> (0 when absent). \<open>timeElapsed\<close> is in seconds.\<close>

definition answer_op :: "int \<Rightarrow> int \<Rightarrow> string \<Rightarrow> int \<Rightarrow> test option \<Rightarrow> response \<times> test option" where
  "answer_op now qn answer spent found =
     (if qn < 1 \<or> answer = [] \<or> spent < 0 then (respond 400 False ''Validation failed'', found)
      else
        (case found of
           None \<Rightarrow> (respond 404 False ''Test not found'', None)
         | Some t \<Rightarrow>
             if status t \<noteq> InProgress then
               (respond 400 False ''Test is not in progress'', Some t)
             else
               (let timeElapsed = (of_int (now - startTime t) :: rat) / 1000;
                    timeLimit = (of_int (durationMinutes (testConfig t) * 60) :: rat) in
                if timeElapsed > timeLimit then
                  (case completeTest now t of
                     Inl e \<Rightarrow> (respond 500 False ''Failed to submit answer'', Some t)
                   | Inr t' \<Rightarrow>
                       ((respond 400 False ''Test time has expired'')\<lparr>res_testCompleted := True\<rparr>,
                        Some t'))
                else
                  (case submitAnswer now qn answer spent t of
                     Inl e \<Rightarrow> (respond 500 False ''Failed to submit answer'', Some t)
                   | Inr t' \<Rightarrow>
                       (respond 200 True ''Answer submitted successfully'',
                        Some (save (t'\<lparr>timeRemaining := max 0 (timeLimit - timeElapsed)\<rparr>)))))))"

text \<open>\<open>PUT /api/tests/flag/:testId\<close>.\<close>

definition flag_op :: "int \<Rightarrow> int \<Rightarrow> bool \<Rightarrow> test option \<Rightarrow> response \<times> test option" where
  "flag_op now qn flagged found =
     (if qn < 1 then (respond 400 False ''Validation failed'', found)
      else
        (case found of
           None \<Rightarrow> (respond 400 False ''Invalid test session'', None)
         | Some t \<Rightarrow>
             if status t \<noteq> InProgress then (respond 400 False ''Invalid test session'', Some t)
             else
               (case find (\<lambda>q. questionNumber q = qn) (questions t) of
                  None \<Rightarrow> (respond 404 False ''Question not found'', Some t)
                | Some question \<Rightarrow>
                    (let question' =
                           question\<lparr>userResponse :=
                                      (userResponse question)\<lparr>flaggedForReview := flagged\<rparr>\<rparr>;
                         t1 = t\<lparr>questions :=
                                 update_first (\<lambda>q. questionNumber q = qn) (\<lambda>_. question')
                                   (questions t)\<rparr>;
                         t2 = t1\<lparr>analytics := (analytics t1)
                                 \<lparr>attemptPattern := attemptPattern (analytics t1)
                                     @ [(now, if flagged then ''flagged'' else ''unflagged'', qn)]\<rparr>\<rparr>
                     in (respond 200 True
                           (if flagged then ''Question flagged for review'' else ''Question unflagged''),
                         Some (save t2))))))"

text \<open>\<open>POST /api/tests/submit/:testId\<close>, with the attempt record of the user.\<close>

definition submit_op :: "int \<Rightarrow> test option \<Rightarrow> testInfo \<Rightarrow> response \<times> test option \<times> testInfo" where
  "submit_op now found ti =
     (case found of
        None \<Rightarrow> (respond 404 False ''Test not found'', None, ti)
      | Some t \<Rightarrow>
          if status t \<noteq> InProgress then
            (respond 400 False ''Test is not in progress'', Some t, ti)
          else
            (case completeTest now t of
               Inl e \<Rightarrow> (respond 500 False ''Failed to submit test'', Some t, ti)
             | Inr t' \<Rightarrow>
                 (let ti1 = (if js_gt (percentage (score t')) (bestScore ti)
                             then ti\<lparr>bestScore := percentage (score t')\<rparr> else ti);
                      ti2 = (if isPassed t'
                             then ti1\<lparr>hasQualified := True, qualificationDate := Some now\<rparr>
                             else ti1)
                  in (respond 200 True ''Test submitted successfully'', Some t', ti2))))"

text \<open>\<open>GET /api/tests/status/:testId\<close>: the remaining time is set on the loaded document;
  the document is stored only when the session is completed.\<close>

definition status_op :: "int \<Rightarrow> test option \<Rightarrow> response \<times> test option" where
  "status_op now found =
     (case found of
        None \<Rightarrow> (respond 404 False ''Test not found'', None)
      | Some t \<Rightarrow>
          if status t = InProgress then
            (let timeElapsed = (of_int (now - startTime t) :: rat) / 1000;
                 timeLimit = (of_int (durationMinutes (testConfig t) * 60) :: rat);
                 t1 = t\<lparr>timeRemaining := max 0 (timeLimit - timeElapsed)\<rparr> in
             if timeRemaining t1 \<le> 0 then
               (case completeTest now t1 of
                  Inl e \<Rightarrow> (respond 500 False ''Failed to get test status'', Some t)
                | Inr t' \<Rightarrow> (respond 200 True [], Some t'))
             else (respond 200 True [], Some t))
          else (respond 200 True [], Some t))"

text \<open>
  \<open>POST /api/tests/proctoring/:testId\<close>, with the body's \<open>violationType\<close>, \<open>description\<close>
  and \<open>timestamp\<close> (already parsed, \<open>None\<close> when absent). The counter is raised on the loaded
  document, then the report is pushed; the push throws, the \<open>catch\<close> answers 500 and the
  document is not saved, so the session stored is the one that was loaded. The lines after
  the push are written below as in the source but are not reached.
\<close>

definition proctoring_op ::
  "int \<Rightarrow> string \<Rightarrow> string \<Rightarrow> int option \<Rightarrow> test option \<Rightarrow> response \<times> test option" where
  "proctoring_op now violationType description timestamp found =
     (if violationType \<notin> set [''tab_switch'', ''full_screen_exit'', ''suspicious_activity''] then
        (respond 400 False ''Validation failed'', found)
      else
        (case found of
           None \<Rightarrow> (respond 400 False ''Invalid test session'', None)
         | Some t \<Rightarrow>
             if status t \<noteq> InProgress then (respond 400 False ''Invalid test session'', Some t)
             else
               (let p = proctoring t;
                    p1 = (if violationType = ''tab_switch'' then
                            p\<lparr>tabSwitchViolations := tabSwitchViolations p + 1\<rparr>
                          else if violationType = ''full_screen_exit'' then
                            p\<lparr>fullScreenViolations := fullScreenViolations p + 1\<rparr>
                          else p);
                    report = Report violationType
                               (case timestamp of Some ts \<Rightarrow> ts | None \<Rightarrow> now) description in
                case push_activity report p1 of
                  Inl e \<Rightarrow> (respond 500 False ''Failed to record violation'', Some t)
                | Inr p2 \<Rightarrow>
                    (let t1 = save (t\<lparr>proctoring := p2\<rparr>);
                         totalViolations = tabSwitchViolations (proctoring t1)
                                             + fullScreenViolations (proctoring t1) in
                     if totalViolations \<ge> 5 then
                       (case completeTest now t1 of
                          Inl e \<Rightarrow> (respond 500 False ''Failed to record violation'', Some t1)
                        | Inr t' \<Rightarrow>
                            ((respond 200 True ''Test auto-submitted due to excessive violations'')
                               \<lparr>res_testCompleted := True\<rparr>, Some t'))
                     else (respond 200 True ''Violation recorded'', Some t1)))))"

text \<open>The requests a candidate can make on a session, and the handler of each, on the
  session found and the candidate's attempt record.\<close>

datatype request =
    Begin
  | Answer int string int
  | Flag int bool
  | Submit
  | GetStatus
  | Violation string string "int option"

fun handle :: "int \<Rightarrow> request \<Rightarrow> test option \<times> testInfo \<Rightarrow> response \<times> test option \<times> testInfo" where
  "handle now Begin (found, ti) = (case begin_op now found of (r, t) \<Rightarrow> (r, t, ti))"
| "handle now (Answer qn answer spent) (found, ti) =
     (case answer_op now qn answer spent found of (r, t) \<Rightarrow> (r, t, ti))"
| "handle now (Flag qn flagged) (found, ti) =
     (case flag_op now qn flagged found of (r, t) \<Rightarrow> (r, t, ti))"
| "handle now Submit (found, ti) = submit_op now found ti"
| "handle now GetStatus (found, ti) = (case status_op now found of (r, t) \<Rightarrow> (r, t, ti))"
| "handle now (Violation violationType description timestamp) (found, ti) =
     (case proctoring_op now violationType description timestamp found of (r, t) \<Rightarrow> (r, t, ti))"

text \<open>A session is past its time limit at \<open>now\<close>.\<close>

definition expired :: "int \<Rightarrow> test \<Rightarrow> bool" where
  "expired now t = (now - startTime t > durationMinutes (testConfig t) * 60 * 1000)"

section \<open>The proctoring service\<close>

record violation =
  v_type :: string
  v_timestamp :: int
  v_details :: string
  severity :: string
  v_id :: string

record proctoring_session =
  violations :: "violation list"
  isActive :: bool

text \<open>The service: its map of active sessions, the threshold read from the environment at
  construction, and the lines appended to the log files.\<close>

record service =
  activeTestSessions :: "string \<rightharpoonup> proctoring_session"
  violationThreshold :: int
  proctoringEnabled :: bool
  logged :: "(string \<times> violation) list"

text \<open>The constructor: \<open>enabled\<close> is whether \<open>ENABLE_PROCTORING\<close> is the string \<open>true\<close>.\<close>

definition new_service :: "int option \<Rightarrow> bool \<Rightarrow> service" where
  "new_service env_VIOLATION_THRESHOLD enabled =
     \<lparr>activeTestSessions = Map.empty, violationThreshold = env_or env_VIOLATION_THRESHOLD 3,
      proctoringEnabled = enabled, logged = []\<rparr>"

text \<open>\<open>startProctoring\<close>: the session is entered in the map with no violation. (The
  options, the screenshots and the timer that asks for them are not modelled.)\<close>

definition startProctoring :: "string \<Rightarrow> service \<Rightarrow> (string + string) \<times> service" where
  "startProctoring testId svc =
     (if \<not> proctoringEnabled svc then (Inl ''Proctoring is disabled'', svc)
      else (Inr testId,
            svc\<lparr>activeTestSessions :=
                  (activeTestSessions svc)(testId \<mapsto> \<lparr>violations = [], isActive = True\<rparr>)\<rparr>))"

text \<open>\<open>getViolationSeverity\<close>: the lookup in \<open>severityMap\<close>, \<open>minor\<close> for a type that is not
  a key. (The keys that a JavaScript object inherits from its prototype are not
  modelled.)\<close>

definition severityMap :: "(string \<times> string) list" where
  "severityMap =
     [(''tab_switch'', ''major''), (''window_blur'', ''major''), (''fullscreen_exit'', ''major''),
      (''copy_paste'', ''critical''), (''right_click'', ''minor''),
      (''keyboard_shortcut'', ''major''), (''multiple_faces'', ''critical''),
      (''no_face_detected'', ''major''), (''suspicious_movement'', ''minor''),
      (''developer_tools'', ''critical'')]"

definition getViolationSeverity :: "string \<Rightarrow> string" where
  "getViolationSeverity violationType =
     (case map_of severityMap violationType of Some s \<Rightarrow> s | None \<Rightarrow> ''minor'')"

record violation_count =
  critical :: nat
  major :: nat
  minor :: nat

record recorded =
  rec_violation :: violation
  rec_totalViolations :: nat
  shouldTerminate :: bool
  violationCount :: violation_count

text \<open>\<open>recordViolation\<close>: \<open>Inl\<close> is the answer \<open>{success: false, message}\<close>, \<open>Inr\<close> the
  answer with \<open>success: true\<close>. \<open>rnd\<close> is the random suffix of the violation's id.\<close>

definition recordViolation ::
  "int \<Rightarrow> string \<Rightarrow> string \<Rightarrow> string \<Rightarrow> string \<Rightarrow> service \<Rightarrow> (string + recorded) \<times> service" where
  "recordViolation now rnd testId violationType details svc =
     (case activeTestSessions svc testId of
        None \<Rightarrow> (Inl ''Session not found'', svc)
      | Some session \<Rightarrow>
          (let v = \<lparr>v_type = violationType, v_timestamp = now, v_details = details,
                    severity = getViolationSeverity violationType,
                    v_id = testId @ ''_'' @ show_int now @ ''_'' @ rnd\<rparr>;
               session' = session\<lparr>violations := violations session @ [v]\<rparr>;
               svc' = svc\<lparr>activeTestSessions := (activeTestSessions svc)(testId \<mapsto> session'),
                          logged := logged svc @ [(testId, v)]\<rparr>;
               criticalViolations =
                 length (filter (\<lambda>v. severity v = ''critical'') (violations session'));
               majorViolations = length (filter (\<lambda>v. severity v = ''major'') (violations session'))
           in (Inr \<lparr>rec_violation = v, rec_totalViolations = length (violations session'),
                    shouldTerminate = (criticalViolations \<ge> 2
                                       \<or> int majorViolations \<ge> violationThreshold svc),
                    violationCount =
                      \<lparr>critical = criticalViolations, major = majorViolations,
                       minor = length (filter (\<lambda>v. severity v = ''minor'')
                                         (violations session'))\<rparr>\<rparr>,
               svc')))"

section \<open>Sequences of requests and example sessions\<close>

text \<open>The requests of a list, each at its time, on the session and the attempt record; the
  responses are dropped.\<close>

fun run :: "(int \<times> request) list \<Rightarrow> test option \<times> testInfo \<Rightarrow> test option \<times> testInfo" where
  "run [] s = s"
| "run ((now, r) # rs) s = run rs (snd (handle now r s))"

text \<open>A multiple-choice question worth 3 points, 1 negative point, whose correct option is
  \<open>A\<close>, not yet answered; and a stored, scheduled session of 30 minutes over given
  questions.\<close>

definition example_slot :: "int \<Rightarrow> slot" where
  "example_slot n =
     \<lparr>questionNumber = n, questionType = ''Multiple Choice'', category = ''General Knowledge'',
      difficulty = ''Moderate'', points = 3, negativePoints = 1,
      options = [\<lparr>opt_text = ''A'', opt_isCorrect = True\<rparr>,
                 \<lparr>opt_text = ''B'', opt_isCorrect = False\<rparr>],
      correctAnswer = None,
      userResponse = \<lparr>selectedOption = [], selectedAnswer = [], timeSpent = 0,
                       answeredAt = None, isAnswered = False, flaggedForReview = False\<rparr>,
      isCorrect = None, pointsEarned = 0\<rparr>"

definition example_test :: "slot list \<Rightarrow> test" where
  "example_test qs =
     \<lparr>session_testId = Some ''TEST000001'',
      testConfig = \<lparr>totalQuestions = int (length qs), durationMinutes = 30,
                    passingPercentage = 65, negativeMarking = True\<rparr>,
      questions = qs, startTime = 0, endTime = None, submittedAt = None,
      actualDurationMinutes = 0, timeRemaining = 1800, status = Scheduled,
      score = default_score, isPassed = False, analytics = default_analytics,
      proctoring = \<lparr>fullScreenViolations = 0, tabSwitchViolations = 0,
                    suspiciousActivities = []\<rparr>,
      attemptNumber = 1\<rparr>"

definition example_user :: testInfo where
  "example_user =
     \<lparr>totalAttempts = 1, lastAttemptDate = Some 0, bestScore = Number 0, hasQualified = False,
      qualificationDate = None, blockedUntil = None, blockedReason = None\<rparr>"

definition session_of :: "test option \<times> testInfo \<Rightarrow> test" where
  "session_of s = (case fst s of Some t \<Rightarrow> t | None \<Rightarrow> example_test [])"

text \<open>Ten questions; the session is begun, six questions are answered \<open>A\<close> and two \<open>B\<close>.\<close>

definition ten_answered :: "test option \<times> testInfo" where
  "ten_answered =
     run [(0, Begin), (1000, Answer 1 ''A'' 5), (2000, Answer 2 ''A'' 5),
          (3000, Answer 3 ''A'' 5), (4000, Answer 4 ''A'' 5), (5000, Answer 5 ''A'' 5),
          (6000, Answer 6 ''A'' 5), (7000, Answer 7 ''B'' 5), (8000, Answer 8 ''B'' 5)]
       (Some (example_test (map example_slot [1, 2, 3, 4, 5, 6, 7, 8, 9, 10])), example_user)"

text \<open>One question; the session is begun and the question is answered \<open>B\<close>.\<close>

definition one_wrong :: "test option \<times> testInfo" where
  "one_wrong =
     run [(0, Begin), (1000, Answer 1 ''B'' 5)]
       (Some (example_test [example_slot 1]), example_user)"

text \<open>A session of one question begun at time 0, in progress.\<close>

definition one_begun :: "test option \<times> testInfo" where
  "one_begun = run [(0, Begin)] (Some (example_test [example_slot 1]), example_user)"

text \<open>The session of one question after its wrong answer was submitted at 3000: evaluated.\<close>

definition one_submitted :: "test option \<times> testInfo" where
  "one_submitted = snd (handle 3000 Submit one_wrong)"

text \<open>A question collection of three active, approved questions, one of each difficulty; a
  candidate with no attempt yet; an environment that asks for three questions per test.\<close>

definition example_question :: "nat \<Rightarrow> string \<Rightarrow> question" where
  "example_question i d =
     \<lparr>q_id = i, q_status = ''Active'', q_isApproved = True, q_questionType = ''Multiple Choice'',
      q_category = ''General Knowledge'', q_difficulty = d, q_points = 3, q_negativePoints = 1,
      q_options = Some [\<lparr>opt_text = ''A'', opt_isCorrect = True\<rparr>,
                       \<lparr>opt_text = ''B'', opt_isCorrect = False\<rparr>],
      q_correctAnswer = None\<rparr>"




text \<open>A proctoring service with the default threshold, and one session started in it.\<close>

definition example_service :: service where
  "example_service = snd (startProctoring ''TEST1'' (new_service None True))"

text \<open>A collection with five easy questions, five moderate ones and a single hard one; and
  the distribution that \<open>POST /start\<close> asks for.\<close>

definition short_hard_db :: "question list" where
  "short_hard_db =
     map (\<lambda>i. example_question i ''Easy'') [0, 1, 2, 3, 4]
     @ map (\<lambda>i. example_question i ''Moderate'') [5, 6, 7, 8, 9]
     @ [example_question 10 ''Hard'']"

definition default_distribution :: "(string \<times> int) list" where
  "default_distribution = [(''Easy'', 30), (''Moderate'', 30), (''Hard'', 40)]"

section \<open>Sums that the statements about the score use\<close>

text \<open>The points of the questions answered correctly, and the negative points of the
  questions answered wrongly (counted only under negative marking).\<close>

definition earned_sum :: "slot list \<Rightarrow> rat" where
  "earned_sum qs = sum_list (map points
      (filter (\<lambda>q. isAnswered (userResponse q) \<and> truthy (isCorrect q)) qs))"

definition penalty_sum :: "bool \<Rightarrow> slot list \<Rightarrow> rat" where
  "penalty_sum nm qs = (if nm then sum_list (map negativePoints
      (filter (\<lambda>q. isAnswered (userResponse q) \<and> \<not> truthy (isCorrect q)) qs)) else 0)"

section \<open>Eligibility: the priority of the rejection reasons\<close>

lemma hours_lt_24: "((of_int d :: rat) / (1000 * 60 * 60) < 24) = (d < 24 * 3600000)"
proof -
  have "((of_int d :: rat) / 3600000 < 24) = ((of_int d :: rat) < 24 * 3600000)"
    by (simp add: pos_divide_less_eq)
  also have "\<dots> = ((of_int d :: rat) < of_int (24 * 3600000))"
    by simp
  also have "\<dots> = (d < 24 * 3600000)"
    by (simp only: of_int_less_iff)
  finally show ?thesis by simp
qed

text \<open>
  C7. The eligibility check tries its rejection rules in a fixed order (a block that ends
  in the future, already qualified, attempts at or over the maximum (default 5), less than
  24 hours since the last attempt) and answers with the reason of the first rule that
  rejects; a record with 5 attempts out of 5, not qualified and not blocked is rejected
  with the maximum-attempts reason (the source's text is "Maximum attempts reached").
\<close>

theorem canAttemptTest_priority:
  "(is_blocked now ti \<longrightarrow>
      canAttemptTest e now ti
        = \<lparr>canAttempt = False, reason = Some ''Account is temporarily blocked''\<rparr>) \<and>
   (\<not> is_blocked now ti \<and> hasQualified ti \<longrightarrow>
      canAttemptTest e now ti = \<lparr>canAttempt = False, reason = Some ''Already qualified''\<rparr>) \<and>
   (\<not> is_blocked now ti \<and> \<not> hasQualified ti \<and> totalAttempts ti \<ge> env_or e 5 \<longrightarrow>
      canAttemptTest e now ti
        = \<lparr>canAttempt = False, reason = Some ''Maximum attempts reached''\<rparr>) \<and>
   (\<not> is_blocked now ti \<and> \<not> hasQualified ti \<and> totalAttempts ti < env_or e 5
      \<and> in_cooldown now ti \<longrightarrow>
      \<not> canAttempt (canAttemptTest e now ti) \<and>
      (\<exists>h. reason (canAttemptTest e now ti)
             = Some (''Please wait '' @ show_int h @ '' hours before next attempt''))) \<and>
   (\<not> is_blocked now ti \<and> \<not> hasQualified ti \<and> totalAttempts ti < env_or e 5
      \<and> \<not> in_cooldown now ti \<longrightarrow>
      canAttemptTest e now ti = \<lparr>canAttempt = True, reason = None\<rparr>) \<and>
   (env_or None 5 = 5 \<and>
    (totalAttempts ti = 5 \<and> \<not> hasQualified ti \<and> blockedUntil ti = None \<longrightarrow>
      canAttemptTest None now ti
        = \<lparr>canAttempt = False, reason = Some ''Maximum attempts reached''\<rparr>))"
  by (auto simp: canAttemptTest_def is_blocked_def in_cooldown_def env_or_def Let_def hours_lt_24
           split: option.splits)

theorem canAttemptTest_priority_witness:
  "canAttemptTest None 1000
     \<lparr>totalAttempts = 5, lastAttemptDate = Some 900, bestScore = Number 40,
      hasQualified = True, qualificationDate = None, blockedUntil = Some 2000,
      blockedReason = None\<rparr>
     = \<lparr>canAttempt = False, reason = Some ''Account is temporarily blocked''\<rparr> \<and>
   canAttemptTest None 1000
     \<lparr>totalAttempts = 5, lastAttemptDate = Some 900, bestScore = Number 40,
      hasQualified = True, qualificationDate = None, blockedUntil = Some 500,
      blockedReason = None\<rparr>
     = \<lparr>canAttempt = False, reason = Some ''Already qualified''\<rparr> \<and>
   canAttemptTest None 1000
     \<lparr>totalAttempts = 5, lastAttemptDate = Some 900, bestScore = Number 40,
      hasQualified = False, qualificationDate = None, blockedUntil = None,
      blockedReason = None\<rparr>
     = \<lparr>canAttempt = False, reason = Some ''Maximum attempts reached''\<rparr>"
  using canAttemptTest_priority [of 1000
      "\<lparr>totalAttempts = 5, lastAttemptDate = Some 900, bestScore = Number 40,
        hasQualified = True, qualificationDate = None, blockedUntil = Some 2000,
        blockedReason = None\<rparr>" None]
    canAttemptTest_priority [of 1000
      "\<lparr>totalAttempts = 5, lastAttemptDate = Some 900, bestScore = Number 40,
        hasQualified = True, qualificationDate = None, blockedUntil = Some 500,
        blockedReason = None\<rparr>" None]
    canAttemptTest_priority [of 1000
      "\<lparr>totalAttempts = 5, lastAttemptDate = Some 900, bestScore = Number 40,
        hasQualified = False, qualificationDate = None, blockedUntil = None,
        blockedReason = None\<rparr>" None]
  by (simp add: is_blocked_def env_or_def)

section \<open>The scoring engine: the score as sums over the questions\<close>

lemma fold_score_totalPoints:
  "totalPoints (fold (score_question nm) qs s) = totalPoints s + sum_list (map points qs)"
  by (induction qs arbitrary: s) (simp_all add: score_question_def Let_def)

lemma fold_score_pointsEarned:
  "score_pointsEarned (fold (score_question nm) qs s) = score_pointsEarned s + earned_sum qs"
  unfolding earned_sum_def
  by (induction qs arbitrary: s) (simp_all add: score_question_def Let_def)

lemma fold_score_negativePoints:
  "score_negativePoints (fold (score_question nm) qs s)
     = score_negativePoints s + penalty_sum nm qs"
  unfolding penalty_sum_def
  by (induction qs arbitrary: s) (simp_all add: score_question_def Let_def)

lemma score_of_points:
  "totalPoints (score_of cfg qs) = sum_list (map points qs)"
  "score_pointsEarned (score_of cfg qs) = earned_sum qs"
  "score_negativePoints (score_of cfg qs) = penalty_sum (negativeMarking cfg) qs"
  "netScore (score_of cfg qs) = earned_sum qs - penalty_sum (negativeMarking cfg) qs"
  by (simp_all add: score_of_def Let_def fold_score_totalPoints fold_score_pointsEarned
        fold_score_negativePoints score_init_def)

lemma score_of_percentage:
  "percentage (score_of cfg qs)
     = Math_round (js_times_pos (js_div (earned_sum qs - penalty_sum (negativeMarking cfg) qs)
                                        (sum_list (map points qs))) 100)"
  by (simp add: score_of_def Let_def fold_score_totalPoints fold_score_pointsEarned
        fold_score_negativePoints score_init_def)

lemma score_of_grade: "grade (score_of cfg qs) = grade_of (percentage (score_of cfg qs))"
  by (simp add: score_of_def Let_def)

lemma calculateScore_score: "score (calculateScore t) = score_of (testConfig t) (questions t)"
  by (simp add: calculateScore_def Let_def)

lemma calculateScore_isPassed:
  "isPassed (calculateScore t)
     = js_ge (percentage (score_of (testConfig t) (questions t)))
             (Number (of_int (passingPercentage (testConfig t))))"
  by (simp add: calculateScore_def Let_def)

lemma sum_list_const:
  "\<forall>x\<in>set xs. f x = (c::rat) \<Longrightarrow> sum_list (map f xs) = of_nat (length xs) * c"
  by (induction xs) (simp_all add: algebra_simps)

lemma sum_list_filter_le:
  "\<forall>x\<in>set xs. 0 \<le> f x \<Longrightarrow> sum_list (map f (filter P xs)) \<le> (sum_list (map f xs) :: rat)"
  by (induction xs) (auto intro: add_increasing)

lemma sum_list_filter_nonneg:
  "\<forall>x\<in>set xs. 0 \<le> f x \<Longrightarrow> 0 \<le> (sum_list (map f (filter P xs)) :: rat)"
  by (rule sum_list_nonneg) auto

lemma sum_list_pos:
  "xs \<noteq> [] \<Longrightarrow> \<forall>x\<in>set xs. 0 < f x \<Longrightarrow> 0 < (sum_list (map f xs) :: rat)"
proof (induction xs)
  case Nil
  then show ?case by simp
next
  case (Cons a xs)
  have "0 \<le> sum_list (map f xs)"
    using Cons.prems(2) by (intro sum_list_nonneg) (auto intro: less_imp_le)
  moreover have "0 < f a" using Cons.prems(2) by simp
  ultimately show ?case by simp
qed

text \<open>
  C3. A session of 10 questions, each worth 3 points with 1 negative point, of which 6 are
  answered correctly, 2 wrongly and 2 not at all, scored with negative marking and a
  passing percentage of 65, gets totalPoints 30, pointsEarned 18, negativePoints 2,
  netScore 16, percentage 53, grade C+ and is not passed.
\<close>

theorem calculateScore_example:
  assumes "length (questions t) = 10"
    and "\<forall>q\<in>set (questions t). points q = 3 \<and> negativePoints q = 1"
    and "length (filter (\<lambda>q. isAnswered (userResponse q) \<and> truthy (isCorrect q)) (questions t)) = 6"
    and "length (filter (\<lambda>q. isAnswered (userResponse q) \<and> \<not> truthy (isCorrect q))
                  (questions t)) = 2"
    and "length (filter (\<lambda>q. \<not> isAnswered (userResponse q)) (questions t)) = 2"
    and "negativeMarking (testConfig t)"
    and "passingPercentage (testConfig t) = 65"
  shows "totalPoints (score (calculateScore t)) = 30 \<and>
         score_pointsEarned (score (calculateScore t)) = 18 \<and>
         score_negativePoints (score (calculateScore t)) = 2 \<and>
         netScore (score (calculateScore t)) = 16 \<and>
         percentage (score (calculateScore t)) = Number 53 \<and>
         grade (score (calculateScore t)) = ''C+'' \<and>
         \<not> isPassed (calculateScore t)"
proof -
  let ?qs = "questions t"
  have "sum_list (map points ?qs) = of_nat (length ?qs) * 3"
    using assms(2) by (intro sum_list_const) simp
  then have total: "sum_list (map points ?qs) = 30"
    using assms(1) by simp
  have "earned_sum ?qs = of_nat (length (filter (\<lambda>q. isAnswered (userResponse q)
                                    \<and> truthy (isCorrect q)) ?qs)) * 3"
    unfolding earned_sum_def using assms(2) by (intro sum_list_const) simp
  then have earned: "earned_sum ?qs = 18"
    using assms(3) by simp
  have "penalty_sum True ?qs = of_nat (length (filter (\<lambda>q. isAnswered (userResponse q)
                                    \<and> \<not> truthy (isCorrect q)) ?qs)) * 1"
    unfolding penalty_sum_def if_True using assms(2) by (intro sum_list_const) simp
  then have penalty: "penalty_sum (negativeMarking (testConfig t)) ?qs = 2"
    using assms(4,6) by simp
  have pct: "percentage (score_of (testConfig t) ?qs) = Number 53"
    by (simp add: score_of_percentage total earned penalty js_div_def floor_eq_iff)
  have "grade (score_of (testConfig t) ?qs) = ''C+''"
    by (simp add: score_of_grade pct grade_of_def)
  moreover have "\<not> isPassed (calculateScore t)"
    by (simp add: calculateScore_isPassed pct assms(7))
  ultimately show ?thesis
    by (simp add: calculateScore_score score_of_points total earned penalty pct)
qed

theorem calculateScore_example_witness:
  "length (questions (session_of ten_answered)) = 10 \<and>
   list_all (\<lambda>q. points q = 3 \<and> negativePoints q = 1) (questions (session_of ten_answered)) \<and>
   length (filter (\<lambda>q. isAnswered (userResponse q) \<and> truthy (isCorrect q))
             (questions (session_of ten_answered))) = 6 \<and>
   length (filter (\<lambda>q. isAnswered (userResponse q) \<and> \<not> truthy (isCorrect q))
             (questions (session_of ten_answered))) = 2 \<and>
   length (filter (\<lambda>q. \<not> isAnswered (userResponse q)) (questions (session_of ten_answered))) = 2 \<and>
   negativeMarking (testConfig (session_of ten_answered)) \<and>
   passingPercentage (testConfig (session_of ten_answered)) = 65 \<and>
   totalPoints (score (calculateScore (session_of ten_answered))) = 30 \<and>
   score_pointsEarned (score (calculateScore (session_of ten_answered))) = 18 \<and>
   score_negativePoints (score (calculateScore (session_of ten_answered))) = 2 \<and>
   netScore (score (calculateScore (session_of ten_answered))) = 16 \<and>
   percentage (score (calculateScore (session_of ten_answered))) = Number 53 \<and>
   grade (score (calculateScore (session_of ten_answered))) = ''C+'' \<and>
   \<not> isPassed (calculateScore (session_of ten_answered))"
proof -
  have h1: "length (questions (session_of ten_answered)) = 10"
    by code_simp
  have h2: "\<forall>q\<in>set (questions (session_of ten_answered)). points q = 3 \<and> negativePoints q = 1"
    by code_simp
  have h3: "length (filter (\<lambda>q. isAnswered (userResponse q) \<and> truthy (isCorrect q))
                     (questions (session_of ten_answered))) = 6"
    by code_simp
  have h4: "length (filter (\<lambda>q. isAnswered (userResponse q) \<and> \<not> truthy (isCorrect q))
                     (questions (session_of ten_answered))) = 2"
    by code_simp
  have h5: "length (filter (\<lambda>q. \<not> isAnswered (userResponse q))
                     (questions (session_of ten_answered))) = 2"
    by code_simp
  have h6: "negativeMarking (testConfig (session_of ten_answered))"
    by code_simp
  have h7: "passingPercentage (testConfig (session_of ten_answered)) = 65"
    by code_simp
  have h2': "list_all (\<lambda>q. points q = 3 \<and> negativePoints q = 1)
               (questions (session_of ten_answered))"
    using h2 by (simp only: list_all_iff)
  from calculateScore_example [OF h1 h2 h3 h4 h5 h6 h7] h1 h2' h3 h4 h5 h6 h7
  show ?thesis by blast
qed





text \<open>
  C6, as the code has it. The claim bounds the percentage by 0 and 100 in every score the
  engine produces. The upper bound holds; the lower bound fails under negative marking: a
  session whose only question (3 points, 1 negative point) is answered wrongly and then
  submitted is scored \<open>-33\<close>.
\<close>

theorem percentage_negative_counterexample:
  "status (session_of one_submitted) = Evaluated \<and>
   percentage (score (session_of one_submitted)) = Number (- 33)"
  by code_simp

text \<open>
  C6, amended. For every non-empty list of questions whose points are positive and whose
  negative points are not negative, the percentage is a number of at most 100; it is at
  least 0 when negative marking is off or no answered question is wrong.
\<close>

theorem percentage_bounds:
  assumes "qs \<noteq> []" and "\<forall>q\<in>set qs. 0 < points q \<and> 0 \<le> negativePoints q"
  shows "\<exists>p. percentage (score_of cfg qs) = Number p \<and> p \<le> 100 \<and>
             (\<not> negativeMarking cfg
                \<or> (\<forall>q\<in>set qs. isAnswered (userResponse q) \<longrightarrow> truthy (isCorrect q))
              \<longrightarrow> 0 \<le> p)"
proof -
  let ?T = "sum_list (map points qs)"
  let ?E = "earned_sum qs"
  let ?N = "penalty_sum (negativeMarking cfg) qs"
  let ?x = "(?E - ?N) / ?T * 100"
  have T: "0 < ?T" using assms by (intro sum_list_pos) auto
  have nonneg: "\<forall>q\<in>set qs. 0 \<le> points q"
    using assms(2) by (auto intro: less_imp_le)
  have E: "?E \<le> ?T" "0 \<le> ?E"
    unfolding earned_sum_def
    by (rule sum_list_filter_le[OF nonneg], rule sum_list_filter_nonneg[OF nonneg])
  have N: "0 \<le> ?N"
    unfolding penalty_sum_def using assms(2) by (auto intro!: sum_list_filter_nonneg)
  have pct: "percentage (score_of cfg qs) = Number (of_int \<lfloor>?x + 1 / 2\<rfloor>)"
    using T by (simp add: score_of_percentage js_div_def)
  have "(?E - ?N) / ?T \<le> 1" using T E N by (simp add: divide_le_eq)
  then have "(?E - ?N) / ?T * 100 \<le> 1 * 100"
    by (intro mult_right_mono) simp_all
  then have "?x \<le> 100" by (simp only: mult_1)
  then have up: "\<lfloor>?x + 1 / 2\<rfloor> \<le> 100" by (simp add: floor_le_iff)
  have lo: "0 \<le> \<lfloor>?x + 1 / 2\<rfloor>"
    if "\<not> negativeMarking cfg
          \<or> (\<forall>q\<in>set qs. isAnswered (userResponse q) \<longrightarrow> truthy (isCorrect q))"
  proof -
    have "filter (\<lambda>q. isAnswered (userResponse q) \<and> \<not> truthy (isCorrect q)) qs = []"
      if "\<forall>q\<in>set qs. isAnswered (userResponse q) \<longrightarrow> truthy (isCorrect q)"
      using that by (auto simp: filter_empty_conv)
    with that have "?N = 0"
      by (auto simp: penalty_sum_def)
    then have "0 \<le> ?x" using T E by simp
    then have "0 \<le> ?x + 1 / 2" by simp
    then show ?thesis by (simp only: zero_le_floor)
  qed
  have "(of_int \<lfloor>?x + 1 / 2\<rfloor> :: rat) \<le> 100"
    using up by (metis of_int_le_iff of_int_numeral)
  moreover have "0 \<le> (of_int \<lfloor>?x + 1 / 2\<rfloor> :: rat)"
    if "\<not> negativeMarking cfg
          \<or> (\<forall>q\<in>set qs. isAnswered (userResponse q) \<longrightarrow> truthy (isCorrect q))"
    using lo[OF that] by simp
  ultimately show ?thesis using pct by auto
qed

theorem percentage_bounds_witness:
  "questions (session_of ten_answered) \<noteq> [] \<and>
   list_all (\<lambda>q. 0 < points q \<and> 0 \<le> negativePoints q) (questions (session_of ten_answered)) \<and>
   (\<exists>p. percentage (score_of (testConfig (session_of ten_answered))
                        (questions (session_of ten_answered))) = Number p \<and> p \<le> 100) \<and>
   percentage (score_of ((testConfig (session_of ten_answered))\<lparr>negativeMarking := False\<rparr>)
                 (questions (session_of ten_answered))) = Number 60"
proof -
  have h1: "questions (session_of ten_answered) \<noteq> []"
    by code_simp
  have h2: "\<forall>q\<in>set (questions (session_of ten_answered)). 0 < points q \<and> 0 \<le> negativePoints q"
    by code_simp
  have h3: "percentage (score_of ((testConfig (session_of ten_answered))\<lparr>negativeMarking := False\<rparr>)
                 (questions (session_of ten_answered))) = Number 60"
    by code_simp
  have h2': "list_all (\<lambda>q. 0 < points q \<and> 0 \<le> negativePoints q)
               (questions (session_of ten_answered))"
    using h2 by (simp only: list_all_iff)
  from percentage_bounds [OF h1 h2, of "testConfig (session_of ten_answered)"] h1 h2' h3
  show ?thesis by blast
qed

section \<open>The session: completion, expiry and scoring at most once\<close>

lemma save_keeps:
  "status (save t) = status t" "score (save t) = score t" "isPassed (save t) = isPassed t"
  "questions (save t) = questions t" "proctoring (save t) = proctoring t"
  "testConfig (save t) = testConfig t" "startTime (save t) = startTime t"
  by (simp_all add: save_def split: option.splits)

lemma calculateAnalytics_keeps:
  "status (calculateAnalytics t) = status t" "score (calculateAnalytics t) = score t"
  "isPassed (calculateAnalytics t) = isPassed t" "questions (calculateAnalytics t) = questions t"
  "proctoring (calculateAnalytics t) = proctoring t"
  "testConfig (calculateAnalytics t) = testConfig t"
  by (simp_all add: calculateAnalytics_def Let_def)

lemma calculateScore_keeps:
  "status (calculateScore t) = status t" "questions (calculateScore t) = questions t"
  "proctoring (calculateScore t) = proctoring t" "testConfig (calculateScore t) = testConfig t"
  by (simp_all add: calculateScore_def Let_def)

lemma completeTest_in_progress:
  assumes "status t = InProgress"
  shows "\<exists>t'. completeTest now t = Inr t' \<and> status t' = Evaluated \<and>
              score t' = score_of (testConfig t) (questions t) \<and>
              questions t' = questions t \<and> proctoring t' = proctoring t \<and>
              testConfig t' = testConfig t"
  using assms
  by (simp add: completeTest_def Let_def save_keeps calculateAnalytics_keeps
        calculateScore_keeps calculateScore_score)

lemma completeTest_not_in_progress:
  "status t \<noteq> InProgress \<Longrightarrow> completeTest now t = Inl ''Test is not in progress''"
  by (simp add: completeTest_def)

lemma expired_iff:
  "((of_int (durationMinutes (testConfig t) * 60) :: rat) < of_int (now - startTime t) / 1000)
     = expired now t"
proof -
  have "((of_int (durationMinutes (testConfig t) * 60) :: rat) < of_int (now - startTime t) / 1000)
        = ((of_int (durationMinutes (testConfig t) * 60) :: rat) * 1000 < of_int (now - startTime t))"
    by (simp add: pos_less_divide_eq)
  also have "\<dots> = ((of_int (durationMinutes (testConfig t) * 60 * 1000) :: rat)
                     < of_int (now - startTime t))"
    by simp
  also have "\<dots> = (durationMinutes (testConfig t) * 60 * 1000 < now - startTime t)"
    by (simp only: of_int_less_iff)
  finally show ?thesis by (simp add: expired_def)
qed

text \<open>
  C2. Once a session is evaluated, no request changes it: every handler answers and leaves
  the session (its score block and the evaluation of its questions included) and the
  attempt record as they were, and \<open>completeTest\<close>, the only caller of the scoring, throws.
  A submit request on a session in progress evaluates it, and a second submit request is
  answered with an error and changes nothing.
\<close>

theorem evaluated_is_final:
  "(status t = Evaluated \<longrightarrow>
      snd (handle now req (Some t, ti)) = (Some t, ti) \<and>
      fst (handle now Submit (Some t, ti)) = respond 400 False ''Test is not in progress'' \<and>
      completeTest now t = Inl ''Test is not in progress'') \<and>
   (status t = InProgress \<longrightarrow>
      (\<exists>t1 ti1. handle now Submit (Some t, ti)
                   = (respond 200 True ''Test submitted successfully'', Some t1, ti1) \<and>
                 status t1 = Evaluated \<and>
                 score t1 = score_of (testConfig t) (questions t) \<and>
                 handle later Submit (Some t1, ti1)
                   = (respond 400 False ''Test is not in progress'', Some t1, ti1)))"
proof (intro conjI impI)
  assume ev: "status t = Evaluated"
  show "snd (handle now req (Some t, ti)) = (Some t, ti)"
    using ev
    by (cases req)
       (simp_all add: begin_op_def answer_op_def flag_op_def submit_op_def status_op_def
          proctoring_op_def)
  show "fst (handle now Submit (Some t, ti)) = respond 400 False ''Test is not in progress''"
    using ev by (simp add: submit_op_def)
  show "completeTest now t = Inl ''Test is not in progress''"
    using ev by (simp add: completeTest_not_in_progress)
next
  assume ip: "status t = InProgress"
  from completeTest_in_progress[OF ip, of now] obtain t1 where
    t1: "completeTest now t = Inr t1" "status t1 = Evaluated"
        "score t1 = score_of (testConfig t) (questions t)"
    by blast
  then show "\<exists>t1 ti1. handle now Submit (Some t, ti)
                   = (respond 200 True ''Test submitted successfully'', Some t1, ti1) \<and>
                 status t1 = Evaluated \<and>
                 score t1 = score_of (testConfig t) (questions t) \<and>
                 handle later Submit (Some t1, ti1)
                   = (respond 400 False ''Test is not in progress'', Some t1, ti1)"
    using ip by (simp add: submit_op_def Let_def)
qed

theorem evaluated_is_final_witness:
  "status (session_of one_submitted) = Evaluated \<and>
   snd (handle 4000 (Answer 1 ''A'' 5) (Some (session_of one_submitted), example_user))
     = (Some (session_of one_submitted), example_user) \<and>
   fst (handle 4000 Submit (Some (session_of one_submitted), example_user))
     = respond 400 False ''Test is not in progress'' \<and>
   completeTest 4000 (session_of one_submitted) = Inl ''Test is not in progress'' \<and>
   status (session_of one_wrong) = InProgress \<and>
   (\<exists>t1 ti1. handle 3000 Submit (Some (session_of one_wrong), example_user)
                 = (respond 200 True ''Test submitted successfully'', Some t1, ti1) \<and>
               status t1 = Evaluated \<and>
               score t1 = score_of (testConfig (session_of one_wrong))
                            (questions (session_of one_wrong)) \<and>
               handle 5000 Submit (Some t1, ti1)
                 = (respond 400 False ''Test is not in progress'', Some t1, ti1))"
proof -
  have h1: "status (session_of one_submitted) = Evaluated"
    by code_simp
  have h2: "status (session_of one_wrong) = InProgress"
    by code_simp
  from evaluated_is_final [of "session_of one_submitted" 4000 "Answer 1 ''A'' 5" example_user]
    evaluated_is_final [of "session_of one_wrong" 3000 _ example_user 5000] h1 h2
  show ?thesis by blast
qed

text \<open>
  C1, amended. On a session in progress whose time limit has passed, an answer request
  (one that passes validation) is rejected with "Test time has expired" and the session is
  completed and scored; a submit request is accepted and completes and scores the session.
\<close>

theorem expiry_enforcement:
  assumes "status t = InProgress" and "expired now t"
  shows "(1 \<le> qn \<and> answer \<noteq> [] \<and> 0 \<le> spent \<longrightarrow>
            (\<exists>t'. handle now (Answer qn answer spent) (Some t, ti)
                     = ((respond 400 False ''Test time has expired'')\<lparr>res_testCompleted := True\<rparr>,
                        Some t', ti) \<and>
                   status t' = Evaluated \<and> score t' = score_of (testConfig t) (questions t))) \<and>
         (\<exists>t' ti'. handle now Submit (Some t, ti)
                      = (respond 200 True ''Test submitted successfully'', Some t', ti') \<and>
                    status t' = Evaluated \<and> score t' = score_of (testConfig t) (questions t))"
proof -
  from completeTest_in_progress[OF assms(1), of now] obtain t1 where
    t1: "completeTest now t = Inr t1" "status t1 = Evaluated"
        "score t1 = score_of (testConfig t) (questions t)"
    by blast
  have a: "handle now (Answer qn answer spent) (Some t, ti)
             = ((respond 400 False ''Test time has expired'')\<lparr>res_testCompleted := True\<rparr>,
                Some t1, ti)"
    if "1 \<le> qn" "answer \<noteq> []" "0 \<le> spent"
  proof -
    have e: "(of_int (durationMinutes (testConfig t) * 60) :: rat)
               < of_int (now - startTime t) / 1000"
      using assms(2) by (simp only: expired_iff)
    show ?thesis
      using that assms(1) t1 e by (simp add: answer_op_def Let_def)
  qed
  have s: "\<exists>ti'. handle now Submit (Some t, ti)
             = (respond 200 True ''Test submitted successfully'', Some t1, ti')"
    using assms(1) t1 by (simp add: submit_op_def Let_def)
  show ?thesis using a s t1 by blast
qed

theorem expiry_enforcement_witness:
  "status (session_of one_begun) = InProgress \<and>
   expired 1800001 (session_of one_begun) \<and>
   (\<exists>t'. handle 1800001 (Answer 1 ''A'' 3) (Some (session_of one_begun), example_user)
            = ((respond 400 False ''Test time has expired'')\<lparr>res_testCompleted := True\<rparr>,
               Some t', example_user) \<and>
          status t' = Evaluated \<and>
          score t' = score_of (testConfig (session_of one_begun))
                       (questions (session_of one_begun))) \<and>
   (\<exists>t' ti'. handle 1800001 Submit (Some (session_of one_begun), example_user)
               = (respond 200 True ''Test submitted successfully'', Some t', ti') \<and>
             status t' = Evaluated \<and>
             score t' = score_of (testConfig (session_of one_begun))
                          (questions (session_of one_begun)))"
proof -
  have h1: "status (session_of one_begun) = InProgress"
    by code_simp
  have h2: "expired 1800001 (session_of one_begun)"
    by code_simp
  have h3: "(1::int) \<le> 1 \<and> ''A'' \<noteq> [] \<and> (0::int) \<le> 3"
    by simp
  from expiry_enforcement [OF h1 h2, of 1 "''A''" 3 example_user] h1 h2 h3
  show ?thesis by blast
qed

text \<open>
  C1, as the code has it. The claim is that every mutating request on a session past its
  time limit is rejected with a session-expired error while the session is completed. For
  a session of 30 minutes begun at time 0, at 1800001 milliseconds: a submit request is
  accepted; a flag request is accepted as well, and leaves the session in progress.
\<close>

theorem expiry_counterexample:
  "status (session_of one_begun) = InProgress \<and>
   expired 1800001 (session_of one_begun) \<and>
   fst (handle 1800001 Submit one_begun) = respond 200 True ''Test submitted successfully'' \<and>
   fst (handle 1800001 (Flag 1 True) one_begun) = respond 200 True ''Question flagged for review'' \<and>
   status (session_of (snd (handle 1800001 (Flag 1 True) one_begun))) = InProgress"
  by code_simp

section \<open>The attempt record: which requests change it\<close>



section \<open>The violation endpoint: what a report does\<close>

text \<open>
  C10. The claim is that the violation endpoint counts reports of type tab_switch and
  full_screen_exit toward an automatic submission at 5, and appends every report, those of
  type suspicious_activity included, to the session's log. The handler is written to do
  so, but the push of the report on \<open>suspiciousActivities\<close>, an array of String, throws:
  for a session in progress and each of the three types the request is answered with 500
  "Failed to record violation" and the session stays as it was stored, with no counter
  raised and nothing appended.
\<close>

theorem violation_report_fails:
  assumes "status t = InProgress"
    and "vt \<in> set [''tab_switch'', ''full_screen_exit'', ''suspicious_activity'']"
  shows "proctoring_op now vt d ts (Some t)
           = (respond 500 False ''Failed to record violation'', Some t)"
  using assms by (auto simp: proctoring_op_def Let_def push_activity_def)

theorem violation_report_fails_witness:
  "status (session_of one_begun) = InProgress \<and>
   ''suspicious_activity'' \<in> set [''tab_switch'', ''full_screen_exit'', ''suspicious_activity''] \<and>
   proctoring_op 1000 ''suspicious_activity'' ''copied text'' None (Some (session_of one_begun))
     = (respond 500 False ''Failed to record violation'', Some (session_of one_begun)) \<and>
   suspiciousActivities (proctoring (session_of one_begun)) = []"
proof -
  have h1: "status (session_of one_begun) = InProgress"
    by code_simp
  have h2: "''suspicious_activity''
              \<in> set [''tab_switch'', ''full_screen_exit'', ''suspicious_activity'']"
    by simp
  have h3: "suspiciousActivities (proctoring (session_of one_begun)) = []"
    by code_simp
  from violation_report_fails [OF h1 h2, of 1000 "''copied text''" None] h1 h2 h3
  show ?thesis by blast
qed

section \<open>The question selector: how many questions it returns\<close>

lemma length_sample: "length (sample rnd n xs) = min n (length xs)"
proof (induction n arbitrary: xs)
  case 0
  then show ?case by simp
next
  case (Suc n)
  show ?case
  proof (cases "xs = []")
    case True
    then show ?thesis by simp
  next
    case False
    let ?i = "rnd n mod length xs"
    have i: "?i < length xs" using False by simp
    then have "length (take ?i xs @ drop (Suc ?i) xs) = length xs - 1" by simp
    then have "length (sample rnd n (take ?i xs @ drop (Suc ?i) xs)) = min n (length xs - 1)"
      using Suc.IH[of "take ?i xs @ drop (Suc ?i) xs"] by simp
    then have "length (sample rnd (Suc n) xs) = Suc (min n (length xs - 1))"
      using False by (simp add: Let_def)
    also have "\<dots> = min (Suc n) (length xs)"
      using i by arith
    finally show ?thesis .
  qed
qed

lemma set_sample: "set (sample rnd n xs) \<subseteq> set xs"
proof (induction n arbitrary: xs)
  case 0
  then show ?case by simp
next
  case (Suc n)
  show ?case
  proof (cases "xs = []")
    case True
    then show ?thesis by simp
  next
    case False
    let ?i = "rnd n mod length xs"
    have i: "?i < length xs" using False by simp
    have "set (take ?i xs @ drop (Suc ?i) xs) \<subseteq> set xs"
      using set_take_subset[of ?i xs] set_drop_subset[of "Suc ?i" xs] by auto
    with Suc.IH[of "take ?i xs @ drop (Suc ?i) xs"]
    have "set (sample rnd n (take ?i xs @ drop (Suc ?i) xs)) \<subseteq> set xs" by blast
    then show ?thesis using False i by (simp add: Let_def)
  qed
qed

lemma distinct_sample: "distinct xs \<Longrightarrow> distinct (sample rnd n xs)"
proof (induction n arbitrary: xs)
  case 0
  then show ?case by simp
next
  case (Suc n)
  show ?case
  proof (cases "xs = []")
    case True
    then show ?thesis by simp
  next
    case False
    let ?i = "rnd n mod length xs"
    let ?rest = "take ?i xs @ drop (Suc ?i) xs"
    have i: "?i < length xs" using False by simp
    have split: "xs = take ?i xs @ xs ! ?i # drop (Suc ?i) xs"
      using i by (rule id_take_nth_drop)
    have "distinct (take ?i xs @ xs ! ?i # drop (Suc ?i) xs)"
      using Suc.prems split by simp
    then have d: "distinct ?rest" and notin: "xs ! ?i \<notin> set ?rest"
      by auto
    have "xs ! ?i \<notin> set (sample rnd n ?rest)"
      using notin set_sample[of rnd n ?rest] by blast
    then show ?thesis using False Suc.IH[OF d] by (simp add: Let_def)
  qed
qed

lemma length_shuffle: "length (shuffle rnd xs) = length xs"
  by (simp add: shuffle_def length_sample)

lemma set_shuffle_subset: "set (shuffle rnd xs) \<subseteq> set xs"
  by (simp add: shuffle_def set_sample)

lemma distinct_shuffle: "distinct xs \<Longrightarrow> distinct (shuffle rnd xs)"
  by (simp add: shuffle_def distinct_sample)

lemma needed_nonneg:
  "0 \<le> count \<Longrightarrow> 0 \<le> pct \<Longrightarrow> 0 \<le> \<lfloor>(of_int (count * pct) :: rat) / 100 + 1 / 2\<rfloor>"
proof -
  assume "0 \<le> count" "0 \<le> pct"
  then have "0 \<le> count * pct" by simp
  then have "(0::rat) \<le> of_int (count * pct)" by (simp only: of_int_0_le_iff)
  then have "(0::rat) \<le> of_int (count * pct) / 100 + 1 / 2" by simp
  then show ?thesis by (simp only: zero_le_floor)
qed

lemma draw_buckets_eq:
  assumes "0 \<le> count" and "\<forall>e\<in>set distribution. 0 \<le> snd e"
  shows "draw_buckets rnd k count distribution pool selected
           = Inr (selected @ concat (map (bucket_draw rnd count pool) (enumerate k distribution)))"
  using assms(2)
proof (induction distribution arbitrary: k selected)
  case Nil
  then show ?case by simp
next
  case (Cons e rest)
  obtain diff pct where e: "e = (diff, pct)" by (cases e) auto
  have "0 \<le> pct" using Cons.prems e by simp
  then have "0 \<le> \<lfloor>(of_int (count * pct) :: rat) / 100 + 1 / 2\<rfloor>"
    using assms(1) by (rule needed_nonneg[rotated])
  then show ?case
    using Cons.IH[of "Suc k"] Cons.prems
    by (simp add: e aggregate_sample_def bucket_draw_def Let_def)
qed

lemma length_filter_ids_le:
  assumes "distinct (map f xs)"
  shows "length (filter (\<lambda>x. f x \<in> set ys) xs) \<le> length ys"
proof -
  have d: "distinct (map f (filter (\<lambda>x. f x \<in> set ys) xs))"
    using assms by (rule distinct_map_filter)
  have "length (filter (\<lambda>x. f x \<in> set ys) xs) = length (map f (filter (\<lambda>x. f x \<in> set ys) xs))"
    by simp
  also have "\<dots> = card (set (map f (filter (\<lambda>x. f x \<in> set ys) xs)))"
    using d by (simp only: distinct_card)
  also have "\<dots> \<le> card (set ys)"
    by (rule card_mono) auto
  also have "\<dots> \<le> length ys"
    by (rule card_length)
  finally show ?thesis .
qed

lemma length_unused:
  assumes "distinct (map f xs)"
  shows "length xs - length ys \<le> length (filter (\<lambda>x. f x \<notin> set ys) xs)"
proof -
  have "length (filter (\<lambda>x. f x \<in> set ys) xs) + length (filter (\<lambda>x. \<not> f x \<in> set ys) xs) = length xs"
    by (rule sum_length_filter_compl)
  with length_filter_ids_le[OF assms, of ys] show ?thesis by simp
qed

lemma set_bucket_draw:
  "set (bucket_draw rnd count pool (j, d, p)) \<subseteq> {q \<in> set pool. q_difficulty q = d}"
  using set_sample[of "rnd j" _ "filter (\<lambda>q. q_difficulty q = d) pool"]
  by (auto simp: bucket_draw_def)

lemma length_bucket_draw:
  "length (bucket_draw rnd count pool (j, d, p))
     = min (nat \<lfloor>(of_int (count * p) :: rat) / 100 + 1 / 2\<rfloor>)
           (length (filter (\<lambda>q. q_difficulty q = d) pool))"
  by (simp add: bucket_draw_def length_sample)

lemma distinct_bucket_draw: "distinct pool \<Longrightarrow> distinct (bucket_draw rnd count pool e)"
  by (cases e) (simp add: bucket_draw_def distinct_sample)

lemma set_drawn:
  "set (concat (map (bucket_draw rnd count pool) es))
     \<subseteq> {q \<in> set pool. q_difficulty q \<in> (fst \<circ> snd) ` set es}"
proof (induction es)
  case Nil
  then show ?case by simp
next
  case (Cons e es)
  obtain j d p where e: "e = (j, d, p)" by (cases e) auto
  show ?case using Cons.IH set_bucket_draw[of rnd count pool j d p] by (auto simp: e)
qed

lemma distinct_drawn:
  assumes "distinct pool" and "distinct (map (fst \<circ> snd) es)"
  shows "distinct (concat (map (bucket_draw rnd count pool) es))"
  using assms(2)
proof (induction es)
  case Nil
  then show ?case by simp
next
  case (Cons e es)
  obtain j d p where e: "e = (j, d, p)" by (cases e) auto
  have d: "d \<notin> (fst \<circ> snd) ` set es" using Cons.prems by (simp add: e)
  have "set (bucket_draw rnd count pool e) \<inter> set (concat (map (bucket_draw rnd count pool) es)) = {}"
    using set_bucket_draw[of rnd count pool j d p] set_drawn[of rnd count pool es] d
    unfolding e by blast
  then show ?case
    using Cons distinct_bucket_draw[OF assms(1), of rnd count e] by simp
qed

lemma getRandomQuestions_eq:
  assumes "0 \<le> count" and "\<forall>e\<in>set distribution. 0 \<le> snd e"
  shows "getRandomQuestions rnd count distribution categories excludeIds db
           = Inr (take (nat count)
                    (shuffle (rnd (Suc (length distribution)))
                       (fill_up (rnd (length distribution)) count
                          (filter (eligible categories excludeIds) db)
                          (concat (map (bucket_draw rnd count
                                         (filter (eligible categories excludeIds) db))
                                     (enumerate 0 distribution))))))"
proof -
  let ?pool = "filter (eligible categories excludeIds) db"
  let ?drawn = "concat (map (bucket_draw rnd count ?pool) (enumerate 0 distribution))"
  have db: "draw_buckets rnd 0 count distribution ?pool [] = Inr ?drawn"
    using draw_buckets_eq[OF assms, of rnd 0 ?pool "[]"] by simp
  have "0 \<le> count - int (length ?drawn)" if "int (length ?drawn) < count"
    using that by simp
  then show ?thesis
    using assms(1)
    by (simp add: getRandomQuestions_def db Let_def aggregate_sample_def fill_up_def slice0_def)
qed

lemma length_fill_up:
  assumes "distinct (map q_id pool)" and "0 \<le> count" and "count \<le> int (length pool)"
  shows "nat count \<le> length (fill_up rnd count pool drawn)"
proof (cases "int (length drawn) < count")
  case True
  let ?rest = "filter (\<lambda>q. q_id q \<notin> set (map q_id drawn)) pool"
  have "length pool - length (map q_id drawn) \<le> length ?rest"
    using length_unused[OF assms(1), of "map q_id drawn"] by simp
  then have "nat (count - int (length drawn)) \<le> length ?rest"
    using assms(3) by simp
  then have "length (sample rnd (nat (count - int (length drawn))) ?rest)
               = nat (count - int (length drawn))"
    by (simp add: length_sample)
  then show ?thesis using True by (simp add: fill_up_def)
next
  case False
  then show ?thesis by (simp add: fill_up_def)
qed

lemma set_fill_up: "set drawn \<subseteq> set pool \<Longrightarrow> set (fill_up rnd count pool drawn) \<subseteq> set pool"
  using set_sample[of rnd _ "filter (\<lambda>q. q_id q \<notin> set (map q_id drawn)) pool"]
  by (auto simp: fill_up_def)

lemma distinct_fill_up:
  assumes "distinct pool" and "distinct drawn"
  shows "distinct (fill_up rnd count pool drawn)"
proof (cases "int (length drawn) < count")
  case True
  let ?rest = "filter (\<lambda>q. q_id q \<notin> set (map q_id drawn)) pool"
  let ?more = "sample rnd (nat (count - int (length drawn))) ?rest"
  have "distinct ?more" using assms(1) by (simp add: distinct_sample)
  moreover have "set drawn \<inter> set ?more = {}"
    using set_sample[of rnd "nat (count - int (length drawn))" ?rest] by auto
  ultimately show ?thesis using True assms(2) by (simp add: fill_up_def)
next
  case False
  then show ?thesis using assms(2) by (simp add: fill_up_def)
qed

lemma sample_cong:
  "(\<And>k. k < n \<Longrightarrow> rnd k = rnd' k) \<Longrightarrow> sample rnd n xs = sample rnd' n xs"
  by (induction n arbitrary: xs) (simp_all add: Let_def)

lemma distinct_remove_nth:
  assumes "distinct xs" and "i < length xs"
  shows "distinct (take i xs @ drop (Suc i) xs)"
    and "set (take i xs @ drop (Suc i) xs) = set xs - {xs ! i}"
proof -
  have split: "xs = take i xs @ xs ! i # drop (Suc i) xs"
    using assms(2) by (rule id_take_nth_drop)
  have d: "distinct (take i xs @ xs ! i # drop (Suc i) xs)"
    using assms(1) split by simp
  then show "distinct (take i xs @ drop (Suc i) xs)" by simp
  have "set xs = set (take i xs @ xs ! i # drop (Suc i) xs)"
    using split by simp
  then show "set (take i xs @ drop (Suc i) xs) = set xs - {xs ! i}"
    using d by auto
qed

text \<open>Every arrangement of the right length is drawn by some source.\<close>

lemma sample_onto:
  assumes "distinct xs" and "distinct ys" and "set ys \<subseteq> set xs"
    and "length ys = min n (length xs)"
  shows "\<exists>rnd. sample rnd n xs = ys"
  using assms
proof (induction n arbitrary: xs ys)
  case 0
  then show ?case by simp
next
  case (Suc n)
  show ?case
  proof (cases "xs = []")
    case True
    then show ?thesis using Suc.prems by simp
  next
    case False
    then have "ys \<noteq> []" using Suc.prems(4) by (cases xs) auto
    then obtain y ys' where ys: "ys = y # ys'" by (cases ys) auto
    have "y \<in> set xs" using Suc.prems(3) ys by simp
    then obtain i where i: "i < length xs" "xs ! i = y" by (auto simp: in_set_conv_nth)
    let ?rest = "take i xs @ drop (Suc i) xs"
    have rest: "distinct ?rest" "set ?rest = set xs - {y}"
      using distinct_remove_nth[OF Suc.prems(1) i(1)] i(2) by simp_all
    have "distinct ys'" "set ys' \<subseteq> set ?rest"
      using Suc.prems(2,3) ys rest(2) by auto
    moreover have "length ys' = min n (length ?rest)"
      using Suc.prems(4) ys i(1) by simp
    ultimately obtain r where r: "sample r n ?rest = ys'"
      using Suc.IH[OF rest(1)] by blast
    let ?rnd = "r(n := i)"
    have "sample ?rnd n ?rest = sample r n ?rest"
      by (rule sample_cong) simp
    then have "sample ?rnd (Suc n) xs = ys"
      using False i r ys by (simp add: Let_def)
    then show ?thesis by blast
  qed
qed

text \<open>Two sources draw the same arrangement exactly when they pick the same positions.\<close>

lemma sample_eq_iff:
  assumes "distinct xs"
  shows "(sample rnd n xs = sample rnd' n xs)
           = (choices rnd n (length xs) = choices rnd' n (length xs))"
  using assms
proof (induction n arbitrary: xs)
  case 0
  then show ?case by simp
next
  case (Suc n)
  show ?case
  proof (cases "xs = []")
    case True
    then show ?thesis by simp
  next
    case False
    let ?i = "rnd n mod length xs"
    let ?i' = "rnd' n mod length xs"
    have i: "?i < length xs" "?i' < length xs" using False by simp_all
    have nth: "(xs ! ?i = xs ! ?i') = (?i = ?i')"
      using Suc.prems i by (rule nth_eq_iff_index_eq)
    show ?thesis
    proof (cases "?i = ?i'")
      case True
      have d: "distinct (take ?i xs @ drop (Suc ?i) xs)"
        using distinct_remove_nth(1)[OF Suc.prems i(1)] .
      have len: "length (take ?i xs @ drop (Suc ?i) xs) = length xs - 1"
        using i(1) by simp
      show ?thesis
        using False True Suc.IH[OF d] len by (simp add: Let_def)
    next
      case neq: False
      then show ?thesis using False nth by (simp add: Let_def)
    qed
  qed
qed

lemma choices_in_range:
  "length (choices rnd n m) = min n m \<and>
   (\<forall>k < length (choices rnd n m). choices rnd n m ! k < m - k)"
proof (induction n arbitrary: m)
  case 0
  then show ?case by simp
next
  case (Suc n)
  show ?case
  proof (cases "m = 0")
    case True
    then show ?thesis by simp
  next
    case False
    have len: "length (choices rnd n (m - 1)) = min n (m - 1)"
      and rng: "\<And>k. k < length (choices rnd n (m - 1))
                  \<Longrightarrow> choices rnd n (m - 1) ! k < m - 1 - k"
      using Suc.IH[of "m - 1"] by simp_all
    have "length (choices rnd (Suc n) m) = min (Suc n) m"
      using False len by simp
    moreover have "choices rnd (Suc n) m ! k < m - k" if "k < length (choices rnd (Suc n) m)" for k
    proof (cases k)
      case 0
      then show ?thesis using False by simp
    next
      case (Suc k')
      then have "k' < length (choices rnd n (m - 1))" using that False by simp
      then show ?thesis using rng[of k'] Suc False by simp
    qed
    ultimately show ?thesis by blast
  qed
qed

lemma bucket_draw_onto:
  assumes "distinct pool" and "distinct ys"
    and "set ys \<subseteq> {q \<in> set pool. q_difficulty q = d}"
    and "length ys = min (nat \<lfloor>(of_int (count * p) :: rat) / 100 + 1 / 2\<rfloor>)
                         (length (filter (\<lambda>q. q_difficulty q = d) pool))"
  shows "\<exists>src. bucket_draw src count pool (j, d, p) = ys"
proof -
  have "distinct (filter (\<lambda>q. q_difficulty q = d) pool)" using assms(1) by simp
  moreover have "set ys \<subseteq> set (filter (\<lambda>q. q_difficulty q = d) pool)" using assms(3) by auto
  ultimately obtain r where
    "sample r (nat \<lfloor>(of_int (count * p) :: rat) / 100 + 1 / 2\<rfloor>)
       (filter (\<lambda>q. q_difficulty q = d) pool) = ys"
    using sample_onto[OF _ assms(2) _ assms(4)] by blast
  then have "bucket_draw (\<lambda>_. r) count pool (j, d, p) = ys"
    by (simp add: bucket_draw_def)
  then show ?thesis by blast
qed

lemma bucket_draw_eq_iff:
  assumes "distinct pool"
  shows "(bucket_draw rnd count pool (j, d, p) = bucket_draw rnd' count pool (j, d, p))
           = (choices (rnd j) (nat \<lfloor>(of_int (count * p) :: rat) / 100 + 1 / 2\<rfloor>)
                 (length (filter (\<lambda>q. q_difficulty q = d) pool))
              = choices (rnd' j) (nat \<lfloor>(of_int (count * p) :: rat) / 100 + 1 / 2\<rfloor>)
                  (length (filter (\<lambda>q. q_difficulty q = d) pool)))"
proof -
  have "distinct (filter (\<lambda>q. q_difficulty q = d) pool)" using assms by simp
  then show ?thesis by (simp add: bucket_draw_def sample_eq_iff)
qed

text \<open>
  C9. For every count and every distribution of non-negative percentages, the selector
  draws for each difficulty \<open>round(count * percentage / 100)\<close> questions (all of them when
  there are fewer) without replacement from the eligible questions of that difficulty, and,
  when the draws together are fewer than \<open>count\<close>, fills the remainder from the eligible
  questions not yet selected, of any difficulty. Whenever the eligible pool (of distinct
  ids) holds at least \<open>count\<close> questions the list returned has exactly \<open>count\<close> questions,
  all eligible, and no question twice when the difficulties of the distribution are
  distinct.

  The draw of a difficulty is uniform in this sense: every list \<open>ys\<close> of distinct eligible
  questions of that difficulty, of the length of the draw, is the draw of some source; and
  two sources give the same draw exactly when they pick the same positions, the \<open>k\<close>-th
  position being one of the questions that are left at the \<open>k\<close>-th step. The draws and the
  sequences of positions thus correspond one to one, so that positions picked evenly and
  independently give each such list with the same probability.
\<close>

theorem getRandomQuestions_count:
  assumes "distinct (map q_id db)" and "0 \<le> count" and "\<forall>e\<in>set distribution. 0 \<le> snd e"
    and "count \<le> int (length (filter (eligible categories excludeIds) db))"
  shows "(\<exists>qs. getRandomQuestions rnd count distribution categories excludeIds db = Inr qs \<and>
              int (length qs) = count \<and>
              set qs \<subseteq> set (filter (eligible categories excludeIds) db) \<and>
              (distinct (map fst distribution) \<longrightarrow> distinct (map q_id qs))) \<and>
         draw_buckets rnd 0 count distribution (filter (eligible categories excludeIds) db) []
           = Inr (concat (map (bucket_draw rnd count (filter (eligible categories excludeIds) db))
                            (enumerate 0 distribution))) \<and>
         length (bucket_draw rnd count (filter (eligible categories excludeIds) db) (j, d, p))
           = min (nat \<lfloor>(of_int (count * p) :: rat) / 100 + 1 / 2\<rfloor>)
                 (length (filter (\<lambda>q. q_difficulty q = d)
                            (filter (eligible categories excludeIds) db))) \<and>
         set (bucket_draw rnd count (filter (eligible categories excludeIds) db) (j, d, p))
           \<subseteq> {q \<in> set (filter (eligible categories excludeIds) db). q_difficulty q = d} \<and>
         distinct (bucket_draw rnd count (filter (eligible categories excludeIds) db) (j, d, p)) \<and>
         (distinct ys \<and>
          set ys \<subseteq> {q \<in> set (filter (eligible categories excludeIds) db). q_difficulty q = d} \<and>
          length ys = min (nat \<lfloor>(of_int (count * p) :: rat) / 100 + 1 / 2\<rfloor>)
                          (length (filter (\<lambda>q. q_difficulty q = d)
                                     (filter (eligible categories excludeIds) db)))
          \<longrightarrow> (\<exists>src. bucket_draw src count (filter (eligible categories excludeIds) db) (j, d, p)
                       = ys)) \<and>
         ((bucket_draw rnd count (filter (eligible categories excludeIds) db) (j, d, p)
             = bucket_draw rnd' count (filter (eligible categories excludeIds) db) (j, d, p))
          = (choices (rnd j) (nat \<lfloor>(of_int (count * p) :: rat) / 100 + 1 / 2\<rfloor>)
               (length (filter (\<lambda>q. q_difficulty q = d)
                          (filter (eligible categories excludeIds) db)))
             = choices (rnd' j) (nat \<lfloor>(of_int (count * p) :: rat) / 100 + 1 / 2\<rfloor>)
                 (length (filter (\<lambda>q. q_difficulty q = d)
                            (filter (eligible categories excludeIds) db))))) \<and>
         (\<forall>k < length (choices (rnd j) (nat \<lfloor>(of_int (count * p) :: rat) / 100 + 1 / 2\<rfloor>)
                        (length (filter (\<lambda>q. q_difficulty q = d)
                                   (filter (eligible categories excludeIds) db)))).
            choices (rnd j) (nat \<lfloor>(of_int (count * p) :: rat) / 100 + 1 / 2\<rfloor>)
              (length (filter (\<lambda>q. q_difficulty q = d)
                         (filter (eligible categories excludeIds) db))) ! k
            < length (filter (\<lambda>q. q_difficulty q = d)
                        (filter (eligible categories excludeIds) db)) - k) \<and>
         getRandomQuestions rnd count distribution categories excludeIds db
           = Inr (take (nat count)
                    (shuffle (rnd (Suc (length distribution)))
                       (fill_up (rnd (length distribution)) count
                          (filter (eligible categories excludeIds) db)
                          (concat (map (bucket_draw rnd count
                                         (filter (eligible categories excludeIds) db))
                                     (enumerate 0 distribution))))))"
proof -
  let ?pool = "filter (eligible categories excludeIds) db"
  let ?drawn = "concat (map (bucket_draw rnd count ?pool) (enumerate 0 distribution))"
  let ?filled = "fill_up (rnd (length distribution)) count ?pool ?drawn"
  let ?qs = "take (nat count) (shuffle (rnd (Suc (length distribution))) ?filled)"
  let ?needed = "nat \<lfloor>(of_int (count * p) :: rat) / 100 + 1 / 2\<rfloor>"
  let ?m = "length (filter (\<lambda>q. q_difficulty q = d) ?pool)"
  have ids: "distinct (map q_id ?pool)" using assms(1) by (rule distinct_map_filter)
  then have dpool: "distinct ?pool" and inj: "inj_on q_id (set ?pool)"
    by (simp_all add: distinct_map)
  have res: "getRandomQuestions rnd count distribution categories excludeIds db = Inr ?qs"
    using assms(2,3) by (rule getRandomQuestions_eq)
  have "nat count \<le> length ?filled"
    using ids assms(2,4) by (rule length_fill_up)
  then have len: "int (length ?qs) = count"
    using assms(2) by (simp add: length_shuffle)
  have sub_drawn: "set ?drawn \<subseteq> set ?pool"
    using set_drawn[of rnd count ?pool "enumerate 0 distribution"] by blast
  have sub_filled: "set ?filled \<subseteq> set ?pool"
    using sub_drawn by (rule set_fill_up)
  have sub: "set ?qs \<subseteq> set ?pool"
    using set_take_subset[of "nat count" "shuffle (rnd (Suc (length distribution))) ?filled"]
      set_shuffle_subset[of "rnd (Suc (length distribution))" ?filled] sub_filled
    by blast
  have dis: "distinct (map q_id ?qs)" if "distinct (map fst distribution)"
  proof -
    have "map (fst \<circ> snd) (enumerate 0 distribution) = map fst distribution"
      by (simp add: map_snd_enumerate flip: map_map)
    then have "distinct ?drawn"
      using that dpool by (intro distinct_drawn) simp_all
    then have "distinct ?filled" using dpool by (intro distinct_fill_up) simp_all
    then have "distinct ?qs" by (simp add: distinct_shuffle)
    moreover have "inj_on q_id (set ?qs)" using inj sub by (rule inj_on_subset)
    ultimately show ?thesis by (simp add: distinct_map)
  qed
  have buckets: "draw_buckets rnd 0 count distribution ?pool [] = Inr ?drawn"
    using draw_buckets_eq[OF assms(2,3), of rnd 0 ?pool "[]"] by simp
  have first: "\<exists>qs. getRandomQuestions rnd count distribution categories excludeIds db = Inr qs \<and>
              int (length qs) = count \<and> set qs \<subseteq> set ?pool \<and>
              (distinct (map fst distribution) \<longrightarrow> distinct (map q_id qs))"
    using res len sub dis by blast
  have onto: "distinct ys \<and> set ys \<subseteq> {q \<in> set ?pool. q_difficulty q = d} \<and>
                length ys = min ?needed ?m
              \<longrightarrow> (\<exists>src. bucket_draw src count ?pool (j, d, p) = ys)"
    using bucket_draw_onto[OF dpool, of ys d count p j] by blast
  have one: "(bucket_draw rnd count ?pool (j, d, p) = bucket_draw rnd' count ?pool (j, d, p))
               = (choices (rnd j) ?needed ?m = choices (rnd' j) ?needed ?m)"
    using dpool by (rule bucket_draw_eq_iff)
  have rng: "\<forall>k < length (choices (rnd j) ?needed ?m). choices (rnd j) ?needed ?m ! k < ?m - k"
    using choices_in_range[of "rnd j" ?needed ?m] by blast
  have props: "length (bucket_draw rnd count ?pool (j, d, p)) = min ?needed ?m \<and>
               set (bucket_draw rnd count ?pool (j, d, p))
                 \<subseteq> {q \<in> set ?pool. q_difficulty q = d} \<and>
               distinct (bucket_draw rnd count ?pool (j, d, p))"
    using length_bucket_draw[of rnd count ?pool j d p]
      set_bucket_draw[of rnd count ?pool j d p] distinct_bucket_draw[OF dpool, of rnd count "(j, d, p)"]
    by blast
  show ?thesis
    using first buckets res props onto one rng
    by (intro conjI) (simp_all only:)
qed

theorem getRandomQuestions_count_witness:
  "distinct (map q_id short_hard_db) \<and>
   (0::int) \<le> 10 \<and>
   list_all (\<lambda>e. 0 \<le> snd e) default_distribution \<and>
   10 \<le> int (length (filter (eligible [] []) short_hard_db)) \<and>
   distinct (map fst default_distribution) \<and>
   (\<exists>qs. getRandomQuestions (\<lambda>_ _. 0) 10 default_distribution [] [] short_hard_db = Inr qs \<and>
         int (length qs) = 10 \<and>
         set qs \<subseteq> set (filter (eligible [] []) short_hard_db) \<and>
         distinct (map q_id qs)) \<and>
   nat \<lfloor>(of_int (10 * 40) :: rat) / 100 + 1 / 2\<rfloor> = 4 \<and>
   length (bucket_draw (\<lambda>_ _. 0) 10 (filter (eligible [] []) short_hard_db) (2, ''Hard'', 40)) = 1 \<and>
   map q_id (bucket_draw (\<lambda>_ _. 0) 10 (filter (eligible [] []) short_hard_db) (0, ''Easy'', 30))
     = [0, 1, 2] \<and>
   map q_id (bucket_draw (\<lambda>_ _. 1) 10 (filter (eligible [] []) short_hard_db) (0, ''Easy'', 30))
     = [1, 2, 3] \<and>
   choices ((\<lambda>_ _. 0) 0) 3 5 = [0, 0, 0] \<and>
   choices ((\<lambda>_ _. 1) 0) 3 5 = [1, 1, 1] \<and>
   (\<exists>src. bucket_draw src 10 (filter (eligible [] []) short_hard_db) (0, ''Easy'', 30)
            = [example_question 4 ''Easy'', example_question 2 ''Easy'',
               example_question 0 ''Easy''])"
proof -
  let ?ys = "[example_question 4 ''Easy'', example_question 2 ''Easy'',
              example_question 0 ''Easy'']"
  have h1: "distinct (map q_id short_hard_db)"
    by code_simp
  have h2: "(0::int) \<le> 10"
    by simp
  have h3: "\<forall>e\<in>set default_distribution. 0 \<le> snd e"
    by (simp add: default_distribution_def)
  have h4: "10 \<le> int (length (filter (eligible [] []) short_hard_db))"
    by code_simp
  have h5: "distinct (map fst default_distribution)"
    by (simp add: default_distribution_def)
  have h6: "nat \<lfloor>(of_int (10 * 40) :: rat) / 100 + 1 / 2\<rfloor> = 4"
    by code_simp
  have h7: "length (bucket_draw (\<lambda>_ _. 0) 10 (filter (eligible [] []) short_hard_db)
                      (2, ''Hard'', 40)) = 1"
    by code_simp
  have h8: "map q_id (bucket_draw (\<lambda>_ _. 0) 10 (filter (eligible [] []) short_hard_db)
                        (0, ''Easy'', 30)) = [0, 1, 2]"
    by code_simp
  have h9: "map q_id (bucket_draw (\<lambda>_ _. 1) 10 (filter (eligible [] []) short_hard_db)
                        (0, ''Easy'', 30)) = [1, 2, 3]"
    by code_simp
  have h10: "choices ((\<lambda>_ _. 0) 0) 3 5 = [0, 0, 0]"
    by code_simp
  have h11: "choices ((\<lambda>_ _. 1) 0) 3 5 = [1, 1, 1]"
    by code_simp
  have y1: "distinct ?ys"
    by code_simp
  have y2: "set ?ys \<subseteq> {q \<in> set (filter (eligible [] []) short_hard_db). q_difficulty q = ''Easy''}"
    by code_simp
  have y3: "length ?ys = min (nat \<lfloor>(of_int (10 * 30) :: rat) / 100 + 1 / 2\<rfloor>)
                           (length (filter (\<lambda>q. q_difficulty q = ''Easy'')
                                      (filter (eligible [] []) short_hard_db)))"
    by code_simp
  have h3': "list_all (\<lambda>e. 0 \<le> snd e) default_distribution"
    using h3 by (simp only: list_all_iff)
  have main: "(\<exists>qs. getRandomQuestions (\<lambda>_ _. 0) 10 default_distribution [] [] short_hard_db = Inr qs \<and>
         int (length qs) = 10 \<and>
         set qs \<subseteq> set (filter (eligible [] []) short_hard_db) \<and>
         distinct (map q_id qs))"
    and ex: "\<exists>src. bucket_draw src 10 (filter (eligible [] []) short_hard_db) (0, ''Easy'', 30) = ?ys"
    using getRandomQuestions_count [OF h1 h2 h3 h4, where rnd = "\<lambda>_ _. 0" and j = 0
        and d = "''Easy''" and p = 30 and ys = ?ys] h5 y1 y2 y3
    by blast+
  from main ex h1 h2 h3' h4 h5 h6 h7 h8 h9 h10 h11
  show ?thesis by (intro conjI) (simp_all only:)
qed

section \<open>The proctoring service: when a violation asks for termination\<close>

text \<open>
  C8. When a violation is recorded for a session of the service, it is appended to the
  session's violations, and the answer has shouldTerminate true exactly when, the new
  violation counted, the session has at least 2 violations of critical severity or at
  least violationThreshold (default 3) violations of major severity. Hence, for a session
  with no critical violation yet and fewer major ones than the threshold, two critical
  violations recorded in sequence give shouldTerminate false on the first call and true on
  the second.
\<close>

theorem recordViolation_shouldTerminate:
  assumes "activeTestSessions svc testId = Some session"
  shows "(\<exists>rec svc' session'.
            recordViolation now rnd testId vt details svc = (Inr rec, svc') \<and>
            activeTestSessions svc' testId = Some session' \<and>
            violations session' = violations session @ [rec_violation rec] \<and>
            severity (rec_violation rec) = getViolationSeverity vt \<and>
            violationThreshold svc' = violationThreshold svc \<and>
            rec_totalViolations rec = length (violations session') \<and>
            shouldTerminate rec
              = (2 \<le> length (filter (\<lambda>v. severity v = ''critical'') (violations session')) \<or>
                 violationThreshold svc
                   \<le> int (length (filter (\<lambda>v. severity v = ''major'') (violations session'))))) \<and>
         (filter (\<lambda>v. severity v = ''critical'') (violations session) = [] \<and>
          int (length (filter (\<lambda>v. severity v = ''major'') (violations session)))
            < violationThreshold svc \<and>
          getViolationSeverity vt1 = ''critical'' \<and> getViolationSeverity vt2 = ''critical'' \<longrightarrow>
            (\<exists>r1 svc1 r2 svc2.
               recordViolation n1 rnd1 testId vt1 d1 svc = (Inr r1, svc1) \<and>
               \<not> shouldTerminate r1 \<and>
               recordViolation n2 rnd2 testId vt2 d2 svc1 = (Inr r2, svc2) \<and>
               shouldTerminate r2))"
  using assms by (simp add: recordViolation_def Let_def)

theorem recordViolation_shouldTerminate_witness:
  "activeTestSessions example_service ''TEST1'' = Some \<lparr>violations = [], isActive = True\<rparr> \<and>
   violationThreshold example_service = 3 \<and>
   getViolationSeverity ''copy_paste'' = ''critical'' \<and>
   getViolationSeverity ''multiple_faces'' = ''critical'' \<and>
   (\<exists>r1 svc1 r2 svc2.
      recordViolation 1000 ''r1'' ''TEST1'' ''copy_paste'' [] example_service = (Inr r1, svc1) \<and>
      \<not> shouldTerminate r1 \<and>
      recordViolation 2000 ''r2'' ''TEST1'' ''multiple_faces'' [] svc1 = (Inr r2, svc2) \<and>
      shouldTerminate r2)"
proof -
  have h1: "activeTestSessions example_service ''TEST1''
              = Some \<lparr>violations = [], isActive = True\<rparr>"
    by (simp add: example_service_def startProctoring_def new_service_def)
  have h2: "violationThreshold example_service = 3"
    by (simp add: example_service_def startProctoring_def new_service_def env_or_def)
  have h3: "getViolationSeverity ''copy_paste'' = ''critical''"
    by (simp add: getViolationSeverity_def severityMap_def)
  have h4: "getViolationSeverity ''multiple_faces'' = ''critical''"
    by (simp add: getViolationSeverity_def severityMap_def)
  from recordViolation_shouldTerminate
         [OF h1, where ?vt1.0 = "''copy_paste''" and ?vt2.0 = "''multiple_faces''"
            and ?n1.0 = 1000 and ?n2.0 = 2000 and ?rnd1.0 = "''r1''" and ?rnd2.0 = "''r2''"
            and ?d1.0 = "[]" and ?d2.0 = "[]"]
    h1 h2 h3 h4
  show ?thesis by simp
qed

end
